theory Spec2Isabelle
  imports Complex_Main
begin

section \<open>Data model (models.py)\<close>

text \<open>
  The tables of the application are modelled as lists of rows, in insertion order.
  Primary keys of items and sessions are natural numbers; a nullable column is an
  \<open>option\<close>. Python's \<open>float\<close> is idealised as \<open>real\<close> (exact arithmetic).
  Creation and completion timestamps, and the texts of notifications, are left out: no
  modelled operation reads them. Foreign keys are not enforced, as on SQLite. Every
  item has an owner (\<open>create_item\<close> always sets it), and a request carries the id of
  the authenticated user.
\<close>

datatype ItemType = LOST | FOUND

datatype ItemStatus = OPEN | MATCHING | NEGOTIATING | MATCHED | CLOSED

datatype NegotiationStatus =
    ACTIVE | SUCCESS | FAILED | PENDING_CONFIRM | CONFIRMED | REJECTED
  | SCHEDULE_PENDING | WAITING_RETURN | RETURNED | RETURN_FAILED

datatype NotificationType =
  MATCH_FOUND | CONFIRM_REQUEST | SCHEDULE | NO_MATCH | NEGOTIATION_UPDATE

record Item =
  item_id :: nat
  title :: string
  description :: string
  ai_description :: "string option"
  item_type :: ItemType
  item_status :: ItemStatus
  location :: "string option"
  owner_id :: nat

record ItemImage =
  image_item_id :: nat
  image_path :: string

text \<open>An entry of the JSON column \<open>chat_log\<close>: a dictionary read with \<open>.get\<close>.\<close>

record Message =
  sender :: string
  content :: "string option"
  action_type :: "string option"

record NegotiationSession =
  session_id :: nat
  lost_item_id :: "nat option"
  found_item_id :: "nat option"
  status :: NegotiationStatus
  match_score :: real
  chat_log :: "Message list"
  seeker_confirmed :: "bool option"
  finder_confirmed :: "bool option"

record FailedMatch =
  fm_lost_item_id :: "nat option"
  fm_found_item_id :: "nat option"
  fm_session_id :: "nat option"
  reason :: "string option"

record ReturnSchedule =
  rs_session_id :: nat
  proposed_time :: nat
  proposed_location :: string
  rs_notes :: "string option"
  rs_status :: string
  reject_reason :: "string option"
  rs_seeker_confirmed :: bool
  rs_finder_confirmed :: bool

record Notification =
  n_user_id :: nat
  n_type :: NotificationType
  related_session_id :: "nat option"

record DB =
  items :: "Item list"
  item_images :: "ItemImage list"
  negotiation_sessions :: "NegotiationSession list"
  failed_matches :: "FailedMatch list"
  return_schedules :: "ReturnSchedule list"
  notifications :: "Notification list"

subsection \<open>Queries and row updates of the ORM\<close>

text \<open>\<open>db.query(Item).get(i)\<close> and \<open>db.query(NegotiationSession).get(i)\<close>.\<close>

definition get_item :: "DB \<Rightarrow> nat \<Rightarrow> Item option" where
  "get_item db i = find (\<lambda>x. item_id x = i) (items db)"

definition get_session :: "DB \<Rightarrow> nat \<Rightarrow> NegotiationSession option" where
  "get_session db i = find (\<lambda>s. session_id s = i) (negotiation_sessions db)"

text \<open>The relationships \<open>session.lost_item\<close> and \<open>session.found_item\<close>.\<close>

definition lost_item :: "DB \<Rightarrow> NegotiationSession \<Rightarrow> Item option" where
  "lost_item db s = (case lost_item_id s of None \<Rightarrow> None | Some i \<Rightarrow> get_item db i)"

definition found_item :: "DB \<Rightarrow> NegotiationSession \<Rightarrow> Item option" where
  "found_item db s = (case found_item_id s of None \<Rightarrow> None | Some i \<Rightarrow> get_item db i)"

text \<open>Writing a changed session object back: the row with its primary key is replaced.\<close>

definition put_session :: "DB \<Rightarrow> NegotiationSession \<Rightarrow> DB" where
  "put_session db s =
     db\<lparr>negotiation_sessions :=
          map (\<lambda>x. if session_id x = session_id s then s else x) (negotiation_sessions db)\<rparr>"

text \<open>\<open>item.status = st\<close> for the item with primary key \<open>i\<close>.\<close>

definition set_item_status :: "DB \<Rightarrow> nat \<Rightarrow> ItemStatus \<Rightarrow> DB" where
  "set_item_status db i st =
     db\<lparr>items := map (\<lambda>x. if item_id x = i then x\<lparr>item_status := st\<rparr> else x) (items db)\<rparr>"

text \<open>\<open>db.query(ReturnSchedule).filter(ReturnSchedule.session_id == sid).first()\<close>.\<close>

definition first_schedule :: "DB \<Rightarrow> nat \<Rightarrow> ReturnSchedule option" where
  "first_schedule db sid = find (\<lambda>r. rs_session_id r = sid) (return_schedules db)"

text \<open>
  Assigning to the attributes of the first row that satisfies \<open>P\<close> (the object that
  \<open>.first()\<close> returned): that row is replaced by \<open>f\<close> of it, the others stay.
\<close>

fun update_first :: "('a \<Rightarrow> bool) \<Rightarrow> ('a \<Rightarrow> 'a) \<Rightarrow> 'a list \<Rightarrow> 'a list" where
  "update_first P f [] = []"
| "update_first P f (x # xs) = (if P x then f x # xs else x # update_first P f xs)"

text \<open>\<open>NotificationService.send\<close>: one more row in the notifications table.\<close>

definition send :: "DB \<Rightarrow> nat \<Rightarrow> NotificationType \<Rightarrow> nat option \<Rightarrow> DB" where
  "send db uid ty sid =
     db\<lparr>notifications :=
          notifications db @ [\<lparr>n_user_id = uid, n_type = ty, related_session_id = sid\<rparr>]\<rparr>"

section \<open>Matching engine (services.py, MatchService)\<close>

text \<open>
  \<open>_calculate_similarity\<close> calls the libraries jieba and scikit-learn, which are not part
  of the repository; it is a parameter \<open>sim\<close> of the functions below.
\<close>

type_synonym similarity = "string \<Rightarrow> string \<Rightarrow> real"

definition MIN_MATCH_SCORE :: real where
  "MIN_MATCH_SCORE = 0.3"

definition MAX_NEGOTIATION_ROUNDS :: nat where
  "MAX_NEGOTIATION_ROUNDS = 20"

text \<open>Python's \<open>x or ""\<close> on an optional string.\<close>

definition or_empty :: "string option \<Rightarrow> string" where
  "or_empty x = (case x of None \<Rightarrow> [] | Some s \<Rightarrow> s)"

text \<open>
  Python's \<open>round(x, n)\<close>: the nearest multiple of \<open>10 ^ -n\<close>, a tie going to the even
  neighbour.
\<close>

definition round_half_even :: "real \<Rightarrow> int" where
  "round_half_even x =
     (let f = \<lfloor>x\<rfloor>; d = x - of_int f
      in if d < 1 / 2 then f else if 1 / 2 < d then f + 1 else if even f then f else f + 1)"

definition py_round :: "real \<Rightarrow> nat \<Rightarrow> real" where
  "py_round x n = of_int (round_half_even (x * 10 ^ n)) / 10 ^ n"

text \<open>
  The lists \<open>scores\<close> and \<open>weights\<close> that \<open>calculate_match_score\<close> builds, one entry per
  comparison made, in the order of the appends.
\<close>

definition comparisons :: "similarity \<Rightarrow> Item \<Rightarrow> Item \<Rightarrow> (real \<times> real) list" where
  "comparisons sim lost found =
     (let desc1 = description lost; desc2 = description found;
          ai_desc1 = or_empty (ai_description lost); ai_desc2 = or_empty (ai_description found);
          loc1 = or_empty (location lost); loc2 = or_empty (location found)
      in [(sim (title lost) (title found), 0.3)]
         @ (if desc1 \<noteq> [] \<and> desc2 \<noteq> [] then [(sim desc1 desc2, 0.3)] else [])
         @ (if ai_desc1 \<noteq> [] \<and> ai_desc2 \<noteq> [] then [(sim ai_desc1 ai_desc2, 0.3)] else [])
         @ (if loc1 \<noteq> [] \<and> loc2 \<noteq> [] then [(sim loc1 loc2, 0.1)] else []))"

text \<open>The end of \<open>calculate_match_score\<close>, from \<open>if not scores\<close> on.\<close>

definition weighted_score :: "(real \<times> real) list \<Rightarrow> real" where
  "weighted_score sw =
     (if sw = [] then 0.0
      else let total_weight = sum_list (map snd sw);
               weighted = sum_list (map (\<lambda>(s, w). s * w) sw) / total_weight
           in py_round weighted 4)"

definition calculate_match_score :: "similarity \<Rightarrow> Item \<Rightarrow> Item \<Rightarrow> real" where
  "calculate_match_score sim lost found = weighted_score (comparisons sim lost found)"

text \<open>
  SQL's \<open>x NOT IN (ids)\<close> on a non-null \<open>x\<close>: true only when no member equals \<open>x\<close> and no
  member is NULL.
\<close>

definition sql_notin :: "nat \<Rightarrow> nat option list \<Rightarrow> bool" where
  "sql_notin x ids = (Some x \<notin> set ids \<and> None \<notin> set ids)"

text \<open>Python's slice \<open>xs[:n]\<close>; a negative \<open>n\<close> counts from the end.\<close>

definition slice_to :: "'a list \<Rightarrow> int \<Rightarrow> 'a list" where
  "slice_to xs n = (if 0 \<le> n then take (nat n) xs else take (length xs - nat (- n)) xs)"

text \<open>
  \<open>find_matches\<close>. The rows come in table order; \<open>sort(key = score, reverse = True)\<close> is
  stable, as \<open>sort_key\<close> on the negated score is.
\<close>

definition find_matches :: "similarity \<Rightarrow> DB \<Rightarrow> Item \<Rightarrow> int \<Rightarrow> (Item \<times> real) list" where
  "find_matches sim db lost limit =
     (let failed_ids = map fm_found_item_id
            (filter (\<lambda>f. fm_lost_item_id f = Some (item_id lost)) (failed_matches db));
          query = filter (\<lambda>i. item_type i = FOUND
                             \<and> (item_status i = OPEN \<or> item_status i = MATCHING)
                             \<and> owner_id i \<noteq> owner_id lost) (items db);
          found_items = (if failed_ids \<noteq> []
                         then filter (\<lambda>i. sql_notin (item_id i) failed_ids) query
                         else query);
          matches = filter (\<lambda>(i, score). MIN_MATCH_SCORE \<le> score)
                      (map (\<lambda>i. (i, calculate_match_score sim lost i)) found_items)
      in slice_to (sort_key (\<lambda>(i, score). - score) matches) limit)"

section \<open>Negotiating agents and the turn loop (agents.py, services.py)\<close>

text \<open>
  The decision function is external and untrusted. It is a parameter \<open>llm\<close>: given its own
  state (a call counter, a random seed, the remote service), the role and the item of the
  agent that speaks (from which the system prompt is built) and the agent's memory (from
  which the user prompt is built), it returns a decision and its next state. A decision
  is a dictionary read with \<open>.get\<close>, so either field may be absent.
\<close>

record Decision =
  d_action :: "string option"
  d_content :: "string option"

type_synonym 'l llm = "'l \<Rightarrow> string \<Rightarrow> Item \<Rightarrow> Message list \<Rightarrow> Decision \<times> 'l"

text \<open>
  HTTP errors of the API (404, 403, 400) and the \<open>AttributeError\<close> that Python raises on
  \<open>None.status\<close> or \<open>None.title\<close>. A request that raises before its first commit leaves
  the database as it was: its database session is closed without a commit.
\<close>

datatype error = NotFound | Forbidden | BadRequest | AttributeError

text \<open>The dictionary that \<open>run_full_negotiation\<close> returns: an error, or a status and the rounds.\<close>

datatype NegotiationResult = ErrorResult | StatusResult string nat

fun result_status :: "NegotiationResult \<Rightarrow> string option" where
  "result_status ErrorResult = None"
| "result_status (StatusResult st n) = Some st"

text \<open>Primary key of a new row: one more than the largest key in the table.\<close>

definition next_id :: "nat list \<Rightarrow> nat" where
  "next_id ids = Suc (fold max ids 0)"

definition create_session :: "DB \<Rightarrow> nat \<Rightarrow> nat \<Rightarrow> real \<Rightarrow> NegotiationSession \<times> DB" where
  "create_session db lid fid score =
     (let db1 = set_item_status db lid NEGOTIATING;
          db2 = set_item_status db1 fid NEGOTIATING;
          session = \<lparr>session_id = next_id (map session_id (negotiation_sessions db)),
                     lost_item_id = Some lid, found_item_id = Some fid, status = ACTIVE,
                     match_score = score, chat_log = [],
                     seeker_confirmed = None, finder_confirmed = None\<rparr>
      in (session, db2\<lparr>negotiation_sessions := negotiation_sessions db2 @ [session]\<rparr>))"

text \<open>
  \<open>current_agent\<close> is the role of the agent that the loop picks from the last sender.
  \<open>negotiation_rounds\<close> is the \<open>for round_num in range(MAX_NEGOTIATION_ROUNDS)\<close> loop of
  \<open>run_full_negotiation\<close> and the code after it. The first numeric argument counts the rounds that remain,
  the second is \<open>round_num\<close>. Both agents' memories are the session's chat log at every
  turn (they are copied from it before the loop and after each turn), so the speaking
  agent decides on \<open>chat_log session\<close>. An agent whose item is missing raises when it
  builds its prompt; the turns committed before stay.
\<close>

definition current_agent :: "Message list \<Rightarrow> string" where
  "current_agent chat =
     (let last_sender = (if chat = [] then None else Some (sender (last chat)))
      in if last_sender \<noteq> Some ''Seeker'' then ''Seeker'' else ''Finder'')"

fun negotiation_rounds ::
  "'l llm \<Rightarrow> Item option \<Rightarrow> Item option \<Rightarrow> nat \<Rightarrow> nat \<Rightarrow> NegotiationSession \<Rightarrow> 'l
     \<Rightarrow> (error + NegotiationResult) \<times> NegotiationSession \<times> 'l" where
  "negotiation_rounds llm seeker finder 0 round_num session l =
     (Inr (StatusResult ''MAX_ROUNDS'' MAX_NEGOTIATION_ROUNDS), session\<lparr>status := FAILED\<rparr>, l)"
| "negotiation_rounds llm seeker finder (Suc k) round_num session l =
     (let role = current_agent (chat_log session);
          item_knowledge = (if role = ''Seeker'' then seeker else finder)
      in case item_knowledge of
           None \<Rightarrow> (Inl AttributeError, session, l)
         | Some item \<Rightarrow>
             (case llm l role item (chat_log session) of (decision, l') \<Rightarrow>
                let message = \<lparr>sender = role, content = d_content decision,
                                action_type = d_action decision\<rparr>;
                    session' = session\<lparr>chat_log := chat_log session @ [message]\<rparr>
                in if action_type message = Some ''AGREE''
                   then (Inr (StatusResult ''SUCCESS'' (round_num + 1)),
                         session'\<lparr>status := PENDING_CONFIRM\<rparr>, l')
                   else if action_type message = Some ''REJECT''
                   then (Inr (StatusResult ''FAILED'' (round_num + 1)),
                         session'\<lparr>status := FAILED\<rparr>, l')
                   else negotiation_rounds llm seeker finder k (Suc round_num) session' l'))"

definition run_full_negotiation ::
  "'l llm \<Rightarrow> 'l \<Rightarrow> DB \<Rightarrow> nat \<Rightarrow> (error + NegotiationResult) \<times> DB \<times> 'l" where
  "run_full_negotiation llm l db sid =
     (case get_session db sid of
        None \<Rightarrow> (Inr ErrorResult, db, l)
      | Some session \<Rightarrow>
          if status session \<noteq> ACTIVE then (Inr ErrorResult, db, l)
          else (case negotiation_rounds llm (lost_item db session) (found_item db session)
                       MAX_NEGOTIATION_ROUNDS 0 session l of
                  (r, session', l') \<Rightarrow> (r, put_session db session', l')))"

text \<open>
  \<open>handle_success\<close> and \<open>handle_failure\<close>. The caller's pending changes of the session
  are already in \<open>db\<close>; a missing item raises before the commit.
\<close>

definition handle_success :: "DB \<Rightarrow> NegotiationSession \<Rightarrow> error + DB" where
  "handle_success db session =
     (case lost_item db session of
        None \<Rightarrow> Inl AttributeError
      | Some l \<Rightarrow>
          (case found_item db session of
             None \<Rightarrow> Inl AttributeError
           | Some f \<Rightarrow>
               Inr (set_item_status (set_item_status db (item_id l) MATCHED) (item_id f) MATCHED)))"

definition handle_failure :: "DB \<Rightarrow> NegotiationSession \<Rightarrow> string option \<Rightarrow> error + DB" where
  "handle_failure db session r =
     (let failed = \<lparr>fm_lost_item_id = lost_item_id session,
                    fm_found_item_id = found_item_id session,
                    fm_session_id = Some (session_id session), reason = r\<rparr>
      in case lost_item db session of
           None \<Rightarrow> Inl AttributeError
         | Some l \<Rightarrow>
             (case found_item db session of
                None \<Rightarrow> Inl AttributeError
              | Some f \<Rightarrow>
                  Inr (set_item_status
                        (set_item_status (db\<lparr>failed_matches := failed_matches db @ [failed]\<rparr>)
                           (item_id l) OPEN)
                        (item_id f) OPEN)))"

section \<open>Orchestrator (services.py, BackgroundTaskService)\<close>

text \<open>
  The \<open>for match in matches\<close> loop of \<open>run_auto_matching\<close>. The result says whether a
  negotiation succeeded (the loop returned) or all candidates failed; an exception of
  the negotiation ends the task.
\<close>

fun auto_matching_loop ::
  "'l llm \<Rightarrow> Item \<Rightarrow> (Item \<times> real) list \<Rightarrow> DB \<Rightarrow> 'l \<Rightarrow> (error + bool) \<times> DB \<times> 'l" where
  "auto_matching_loop llm lost [] db l = (Inr False, db, l)"
| "auto_matching_loop llm lost ((found, score) # rest) db l =
     (case create_session db (item_id lost) (item_id found) score of (session, db1) \<Rightarrow>
        (case run_full_negotiation llm l db1 (session_id session) of (result, db2, l') \<Rightarrow>
           (case result of
              Inl e \<Rightarrow> (Inl e, db2, l')
            | Inr r \<Rightarrow>
                if result_status r = Some ''SUCCESS''
                then (Inr True,
                      send (send db2 (owner_id lost) MATCH_FOUND (Some (session_id session)))
                        (owner_id found) MATCH_FOUND (Some (session_id session)),
                      l')
                else (case handle_failure db2 session (result_status r) of
                        Inl e \<Rightarrow> (Inl e, db2, l')
                      | Inr db3 \<Rightarrow> auto_matching_loop llm lost rest db3 l'))))"

definition run_auto_matching ::
  "'l llm \<Rightarrow> similarity \<Rightarrow> 'l \<Rightarrow> DB \<Rightarrow> nat \<Rightarrow> (error + unit) \<times> DB \<times> 'l" where
  "run_auto_matching llm sim l db lid =
     (case get_item db lid of
        None \<Rightarrow> (Inr (), db, l)
      | Some lost \<Rightarrow>
          let db1 = set_item_status db lid MATCHING;
              matches = find_matches sim db1 lost 10
          in if matches = []
             then (Inr (), send (set_item_status db1 lid OPEN) (owner_id lost) NO_MATCH None, l)
             else (case auto_matching_loop llm lost matches db1 l of
                     (Inl e, db2, l') \<Rightarrow> (Inl e, db2, l')
                   | (Inr True, db2, l') \<Rightarrow> (Inr (), db2, l')
                   | (Inr False, db2, l') \<Rightarrow>
                       (Inr (), send (set_item_status db2 lid OPEN) (owner_id lost)
                                  NO_MATCH None, l')))"

section \<open>Confirmation and scheduling endpoints (main.py)\<close>

text \<open>
  Each endpoint takes the database, its path and body parameters and the id of the
  authenticated user, and returns the HTTP error or the database after the request.
  The Chinese texts that the code stores are given in English.
\<close>

text \<open>\<open>item and item.owner_id == user_id\<close>.\<close>

definition owned_by :: "Item option \<Rightarrow> nat \<Rightarrow> bool" where
  "owned_by item user_id = (case item of None \<Rightarrow> False | Some i \<Rightarrow> owner_id i = user_id)"

text \<open>
  \<open>owner = item.owner_id if item else None\<close>, then \<open>if owner: send(owner, ...)\<close>: the
  test is Python's truth value, false for \<open>None\<close> and for \<open>0\<close>.
\<close>

definition notify_owner :: "DB \<Rightarrow> Item option \<Rightarrow> NotificationType \<Rightarrow> nat \<Rightarrow> DB" where
  "notify_owner db item ty sid =
     (case item of
        None \<Rightarrow> db
      | Some i \<Rightarrow> if owner_id i \<noteq> 0 then send db (owner_id i) ty (Some sid) else db)"

definition confirm_item :: "DB \<Rightarrow> nat \<Rightarrow> bool \<Rightarrow> nat \<Rightarrow> error + DB" where
  "confirm_item db sid is_my_item user_id =
     (case get_session db sid of
        None \<Rightarrow> Inl NotFound
      | Some session \<Rightarrow>
          if owned_by (lost_item db session) user_id
          then (let session = session\<lparr>seeker_confirmed := Some is_my_item\<rparr>
                in if \<not> is_my_item
                   then handle_failure (put_session db (session\<lparr>status := REJECTED\<rparr>))
                          (session\<lparr>status := REJECTED\<rparr>) (Some ''user confirmed: not my item'')
                   else if seeker_confirmed session = Some True
                           \<and> finder_confirmed session = Some True
                   then handle_success (put_session db (session\<lparr>status := CONFIRMED\<rparr>))
                          (session\<lparr>status := CONFIRMED\<rparr>)
                   else Inr (put_session db session))
          else if owned_by (found_item db session) user_id
          then (let session = session\<lparr>finder_confirmed := Some is_my_item\<rparr>
                in if \<not> is_my_item
                   then handle_failure (put_session db (session\<lparr>status := REJECTED\<rparr>))
                          (session\<lparr>status := REJECTED\<rparr>) (Some ''user confirmed: not my item'')
                   else if seeker_confirmed session = Some True
                           \<and> finder_confirmed session = Some True
                   then handle_success (put_session db (session\<lparr>status := CONFIRMED\<rparr>))
                          (session\<lparr>status := CONFIRMED\<rparr>)
                   else Inr (put_session db session))
          else Inl Forbidden)"

definition force_match :: "DB \<Rightarrow> nat \<Rightarrow> nat \<Rightarrow> error + DB" where
  "force_match db sid user_id =
     (case get_session db sid of
        None \<Rightarrow> Inl NotFound
      | Some session \<Rightarrow>
          if \<not> owned_by (lost_item db session) user_id then Inl Forbidden
          else if status session \<noteq> FAILED \<and> status session \<noteq> REJECTED then Inl BadRequest
          else Inr (put_session db
                 (session\<lparr>status := PENDING_CONFIRM, seeker_confirmed := Some True,
                            chat_log := chat_log session @
                              [\<lparr>sender = ''System'',
                                content = Some ''seeker confirmed own item; forced match'',
                                action_type = None\<rparr>]\<rparr>)))"

text \<open>The request body \<open>ScheduleCreate\<close>.\<close>

record ScheduleCreate =
  sc_proposed_time :: nat
  sc_proposed_location :: string
  sc_notes :: "string option"

definition create_schedule :: "DB \<Rightarrow> nat \<Rightarrow> ScheduleCreate \<Rightarrow> nat \<Rightarrow> error + DB" where
  "create_schedule db sid schedule user_id =
     (case get_session db sid of
        None \<Rightarrow> Inl NotFound
      | Some session \<Rightarrow>
          if \<not> owned_by (found_item db session) user_id then Inl Forbidden
          else if status session \<noteq> CONFIRMED then Inl BadRequest
          else (case first_schedule db sid of
                  Some existing \<Rightarrow>
                    if rs_status existing = ''PENDING'' then Inl BadRequest
                    else Inr (notify_owner
                      (put_session
                         (db\<lparr>return_schedules :=
                               update_first (\<lambda>r. rs_session_id r = sid)
                                 (\<lambda>r. r\<lparr>proposed_time := sc_proposed_time schedule,
                                         proposed_location := sc_proposed_location schedule,
                                         rs_notes := sc_notes schedule,
                                         rs_status := ''PENDING'',
                                         reject_reason := None\<rparr>)
                                 (return_schedules db)\<rparr>)
                         (session\<lparr>status := SCHEDULE_PENDING\<rparr>))
                      (lost_item db session) SCHEDULE sid)
                | None \<Rightarrow>
                    Inr (notify_owner
                      (put_session
                         (db\<lparr>return_schedules := return_schedules db @
                               [\<lparr>rs_session_id = sid,
                                 proposed_time = sc_proposed_time schedule,
                                 proposed_location = sc_proposed_location schedule,
                                 rs_notes = sc_notes schedule,
                                 rs_status = ''PENDING'',
                                 reject_reason = None,
                                 rs_seeker_confirmed = False,
                                 rs_finder_confirmed = False\<rparr>]\<rparr>)
                         (session\<lparr>status := SCHEDULE_PENDING\<rparr>))
                      (lost_item db session) SCHEDULE sid)))"

definition approve_schedule :: "DB \<Rightarrow> nat \<Rightarrow> nat \<Rightarrow> error + DB" where
  "approve_schedule db sid user_id =
     (case get_session db sid of
        None \<Rightarrow> Inl NotFound
      | Some session \<Rightarrow>
          if \<not> owned_by (lost_item db session) user_id then Inl Forbidden
          else if status session \<noteq> SCHEDULE_PENDING then Inl BadRequest
          else Inr (notify_owner
                 (put_session
                    (db\<lparr>return_schedules :=
                          update_first (\<lambda>r. rs_session_id r = sid \<and> rs_status r = ''PENDING'')
                            (\<lambda>r. r\<lparr>rs_status := ''APPROVED''\<rparr>) (return_schedules db)\<rparr>)
                    (session\<lparr>status := WAITING_RETURN\<rparr>))
                 (found_item db session) NEGOTIATION_UPDATE sid))"

text \<open>
  Python's \<open>str.strip()\<close> on ASCII text: the white space characters are the codes 9 to 13,
  28 to 31 and 32. (A \<open>string\<close> here is a list of bytes; white space beyond ASCII is not
  modelled.)
\<close>

definition is_space :: "char \<Rightarrow> bool" where
  "is_space c = (let n = of_char c :: nat in (9 \<le> n \<and> n \<le> 13) \<or> (28 \<le> n \<and> n \<le> 32))"

definition strip :: "string \<Rightarrow> string" where
  "strip s = rev (dropWhile is_space (rev (dropWhile is_space s)))"

definition reject_schedule :: "DB \<Rightarrow> nat \<Rightarrow> string \<Rightarrow> nat \<Rightarrow> error + DB" where
  "reject_schedule db sid reject_reason_text user_id =
     (case get_session db sid of
        None \<Rightarrow> Inl NotFound
      | Some session \<Rightarrow>
          if \<not> owned_by (lost_item db session) user_id then Inl Forbidden
          else if status session \<noteq> SCHEDULE_PENDING then Inl BadRequest
          else if reject_reason_text = [] \<or> strip reject_reason_text = [] then Inl BadRequest
          else Inr (notify_owner
                 (put_session
                    (db\<lparr>return_schedules :=
                          update_first (\<lambda>r. rs_session_id r = sid \<and> rs_status r = ''PENDING'')
                            (\<lambda>r. r\<lparr>rs_status := ''REJECTED'',
                                    reject_reason := Some (strip reject_reason_text)\<rparr>)
                            (return_schedules db)\<rparr>)
                    (session\<lparr>status := CONFIRMED\<rparr>))
                 (found_item db session) NEGOTIATION_UPDATE sid))"

text \<open>\<open>start_return\<close> takes the authenticated user and does not look at it.\<close>

definition start_return :: "DB \<Rightarrow> nat \<Rightarrow> nat \<Rightarrow> error + DB" where
  "start_return db sid user_id =
     (case get_session db sid of
        None \<Rightarrow> Inl NotFound
      | Some session \<Rightarrow>
          if status session \<noteq> CONFIRMED then Inl BadRequest
          else Inr (put_session db (session\<lparr>status := WAITING_RETURN\<rparr>)))"

text \<open>
  The deletions of \<open>confirm_return\<close> for one item id: \<open>if item_id:\<close> is Python's truth
  value, then the failed matches that name the item on either side and its images go.
\<close>

definition delete_item_records :: "DB \<Rightarrow> nat option \<Rightarrow> DB" where
  "delete_item_records db iid =
     (case iid of
        None \<Rightarrow> db
      | Some i \<Rightarrow>
          if i = 0 then db
          else db\<lparr>failed_matches :=
                    filter (\<lambda>f. \<not> (fm_lost_item_id f = Some i \<or> fm_found_item_id f = Some i))
                      (failed_matches db),
                  item_images := filter (\<lambda>g. image_item_id g \<noteq> i) (item_images db)\<rparr>)"

definition delete_item_row :: "DB \<Rightarrow> nat option \<Rightarrow> DB" where
  "delete_item_row db iid =
     (case iid of
        None \<Rightarrow> db
      | Some i \<Rightarrow> if i = 0 then db else db\<lparr>items := filter (\<lambda>x. item_id x \<noteq> i) (items db)\<rparr>)"

text \<open>\<open>if item: item.status = OPEN\<close>.\<close>

definition reopen :: "DB \<Rightarrow> Item option \<Rightarrow> DB" where
  "reopen db item = (case item of None \<Rightarrow> db | Some i \<Rightarrow> set_item_status db (item_id i) OPEN)"

definition confirm_return :: "DB \<Rightarrow> nat \<Rightarrow> bool \<Rightarrow> nat \<Rightarrow> error + DB" where
  "confirm_return db sid is_returned user_id =
     (case get_session db sid of
        None \<Rightarrow> Inl NotFound
      | Some session \<Rightarrow>
          if status session \<noteq> WAITING_RETURN then Inl BadRequest
          else
            let is_seeker = owned_by (lost_item db session) user_id;
                is_finder = owned_by (found_item db session) user_id
            in if \<not> (is_seeker \<or> is_finder) then Inl Forbidden
               else
                 let db1 = db\<lparr>return_schedules :=
                                update_first (\<lambda>r. rs_session_id r = sid)
                                  (\<lambda>r. if is_seeker then r\<lparr>rs_seeker_confirmed := is_returned\<rparr>
                                        else r\<lparr>rs_finder_confirmed := is_returned\<rparr>)
                                  (return_schedules db)\<rparr>;
                     session1 = (if is_seeker then session\<lparr>seeker_confirmed := Some is_returned\<rparr>
                                 else session\<lparr>finder_confirmed := Some is_returned\<rparr>);
                     lost_id = map_option item_id (lost_item db session);
                     found_id = map_option item_id (found_item db session)
                 in if \<not> is_returned
                    then Inr ((reopen (reopen (put_session db1 (session1\<lparr>status := RETURN_FAILED\<rparr>))
                                         (lost_item db session))
                                 (found_item db session))
                              \<lparr>failed_matches := failed_matches db @
                                 [\<lparr>fm_lost_item_id = lost_id, fm_found_item_id = found_id,
                                   fm_session_id = None,
                                   reason = Some ''offline check: no match''\<rparr>]\<rparr>)
                    else if seeker_confirmed session1 = Some True
                            \<and> finder_confirmed session1 = Some True
                    then Inr (delete_item_row
                               (delete_item_row
                                  (put_session
                                     (delete_item_records (delete_item_records db1 lost_id) found_id)
                                     (session1\<lparr>status := RETURNED, lost_item_id := None,
                                                found_item_id := None\<rparr>))
                                  lost_id)
                               found_id)
                    else Inr (put_session db1 session1))"

section \<open>The score as the specification words it\<close>




section \<open>Sequences of requests\<close>

text \<open>One request after another; the first error ends the sequence.\<close>

definition and_then :: "error + DB \<Rightarrow> (DB \<Rightarrow> error + DB) \<Rightarrow> error + DB" where
  "and_then r f = (case r of Inl e \<Rightarrow> Inl e | Inr db \<Rightarrow> f db)"



section \<open>Example data\<close>

subsection \<open>Items, similarity and decision function\<close>

text \<open>
  A lost item and two found items of other owners, a stand-in for the similarity
  parameter (equal texts are similar, others are not) and a stand-in for the decision
  function that plays a fixed list of actions and then keeps asking.
\<close>

definition lost1 :: Item where
  "lost1 = \<lparr>item_id = 1, title = ''black headphones'', description = ''lost in the cafeteria'',
            ai_description = None, item_type = LOST, item_status = OPEN,
            location = Some ''cafeteria'', owner_id = 10\<rparr>"

definition found2 :: Item where
  "found2 = \<lparr>item_id = 2, title = ''black headphones'', description = ''found on a table'',
             ai_description = None, item_type = FOUND, item_status = OPEN,
             location = Some ''cafeteria'', owner_id = 20\<rparr>"

definition found3 :: Item where
  "found3 = \<lparr>item_id = 3, title = ''black headphones'', description = ''found near the door'',
             ai_description = None, item_type = FOUND, item_status = OPEN,
             location = None, owner_id = 30\<rparr>"

definition sim_equal :: similarity where
  "sim_equal a b = (if a = b then 1 else 0)"

definition scripted :: "string list llm" where
  "scripted l role item memory =
     (case l of
        [] \<Rightarrow> (\<lparr>d_action = Some ''ASK'', d_content = None\<rparr>, [])
      | a # as \<Rightarrow> (\<lparr>d_action = Some a, d_content = None\<rparr>, as))"

definition db_items :: DB where
  "db_items = \<lparr>items = [lost1, found2, found3], item_images = [],
               negotiation_sessions = [], failed_matches = [], return_schedules = [],
               notifications = []\<rparr>"

text \<open>The same database after a failed match of item 1 with item 2 was recorded.\<close>

definition failed_1_2 :: FailedMatch where
  "failed_1_2 = \<lparr>fm_lost_item_id = Some 1, fm_found_item_id = Some 2,
                 fm_session_id = None, reason = Some ''FAILED''\<rparr>"

definition db_failed :: DB where
  "db_failed = db_items\<lparr>failed_matches := [failed_1_2]\<rparr>"

subsection \<open>Sessions in the stages of the state machine\<close>

text \<open>
  The session that \<open>create_session\<close> opens for the pair of items 1 and 2, and two scripts
  for the decision function: five turns ending in agreement, and a rejection on the
  second turn.
\<close>

definition session_active :: NegotiationSession where
  "session_active = \<lparr>session_id = 1, lost_item_id = Some 1, found_item_id = Some 2,
                      status = ACTIVE, match_score = 0.5714, chat_log = [],
                      seeker_confirmed = None, finder_confirmed = None\<rparr>"

definition db_active :: DB where
  "db_active = db_items\<lparr>items := [lost1\<lparr>item_status := NEGOTIATING\<rparr>,
                                   found2\<lparr>item_status := NEGOTIATING\<rparr>, found3],
                         negotiation_sessions := [session_active]\<rparr>"

definition script_agree :: "string list" where
  "script_agree = [''ASK'', ''ANSWER'', ''CONFIRM'', ''PROPOSE_MEET'', ''AGREE'']"

definition script_reject :: "string list" where
  "script_reject = [''ASK'', ''REJECT'']"

text \<open>
  The database after the agents agreed (session 1 awaits the human confirmations),
  after user 10, the owner of the lost item, answered ``mine'', and after user 20, the
  owner of the found item, did so too.
\<close>

definition agreed_chat :: "Message list" where
  "agreed_chat =
     [\<lparr>sender = ''Seeker'', content = None, action_type = Some ''ASK''\<rparr>,
      \<lparr>sender = ''Finder'', content = None, action_type = Some ''ANSWER''\<rparr>,
      \<lparr>sender = ''Seeker'', content = None, action_type = Some ''CONFIRM''\<rparr>,
      \<lparr>sender = ''Finder'', content = None, action_type = Some ''PROPOSE_MEET''\<rparr>,
      \<lparr>sender = ''Seeker'', content = None, action_type = Some ''AGREE''\<rparr>]"

definition session_pending :: NegotiationSession where
  "session_pending = session_active\<lparr>status := PENDING_CONFIRM, chat_log := agreed_chat\<rparr>"

definition db_pending :: DB where
  "db_pending = db_active\<lparr>negotiation_sessions := [session_pending]\<rparr>"

definition db_seeker_confirmed :: DB where
  "db_seeker_confirmed =
     db_pending\<lparr>negotiation_sessions := [session_pending\<lparr>seeker_confirmed := Some True\<rparr>]\<rparr>"

definition session_confirmed :: NegotiationSession where
  "session_confirmed = session_pending\<lparr>status := CONFIRMED, seeker_confirmed := Some True,
                                        finder_confirmed := Some True\<rparr>"

definition db_confirmed :: DB where
  "db_confirmed = db_pending\<lparr>items := [lost1\<lparr>item_status := MATCHED\<rparr>,
                                      found2\<lparr>item_status := MATCHED\<rparr>, found3],
                            negotiation_sessions := [session_confirmed]\<rparr>"

text \<open>
  The database after the finder proposed a schedule in \<open>db_confirmed\<close> and the seeker
  then answered ``mine'' once more: the session is CONFIRMED again and its schedule is
  still pending.
\<close>

definition db_stale :: DB where
  "db_stale =
     db_confirmed\<lparr>return_schedules :=
                     [\<lparr>rs_session_id = 1, proposed_time = 900,
                       proposed_location = ''library'', rs_notes = None,
                       rs_status = ''PENDING'', reject_reason = None,
                       rs_seeker_confirmed = False, rs_finder_confirmed = False\<rparr>],
                   notifications :=
                     [\<lparr>n_user_id = 10, n_type = SCHEDULE, related_session_id = Some 1\<rparr>]\<rparr>"

text \<open>
  The database after user 10 answered ``not mine'' in \<open>db_pending\<close>, and after the same
  user then forced the match.
\<close>

definition db_rejected :: DB where
  "db_rejected =
     db_pending\<lparr>items := [lost1, found2, found3],
                 negotiation_sessions :=
                   [session_pending\<lparr>status := REJECTED, seeker_confirmed := Some False\<rparr>],
                 failed_matches :=
                   [\<lparr>fm_lost_item_id = Some 1, fm_found_item_id = Some 2,
                     fm_session_id = Some 1,
                     reason = Some ''user confirmed: not my item''\<rparr>]\<rparr>"

definition db_forced :: DB where
  "db_forced =
     db_rejected\<lparr>negotiation_sessions :=
       [session_pending\<lparr>status := PENDING_CONFIRM, seeker_confirmed := Some True,
          chat_log := agreed_chat @
            [\<lparr>sender = ''System'', content = Some ''seeker confirmed own item; forced match'',
              action_type = None\<rparr>]\<rparr>]\<rparr>"

text \<open>Two proposals for the return.\<close>

definition proposal_monday :: ScheduleCreate where
  "proposal_monday = \<lparr>sc_proposed_time = 900, sc_proposed_location = ''library'',
                       sc_notes = None\<rparr>"


text \<open>
  The database after the finder's proposal was approved in \<open>db_confirmed\<close>: session 1
  waits for the return. It also holds an image of item 1, an image of item 3 and an
  older failed match of item 1 with item 3.
\<close>

definition db_waiting :: DB where
  "db_waiting =
     db_confirmed\<lparr>item_images := [\<lparr>image_item_id = 1, image_path = ''a.jpg''\<rparr>,
                                    \<lparr>image_item_id = 3, image_path = ''c.jpg''\<rparr>],
                   negotiation_sessions := [session_confirmed\<lparr>status := WAITING_RETURN\<rparr>],
                   failed_matches := [\<lparr>fm_lost_item_id = Some 1, fm_found_item_id = Some 3,
                                       fm_session_id = None, reason = Some ''FAILED''\<rparr>],
                   return_schedules :=
                     [\<lparr>rs_session_id = 1, proposed_time = 900,
                       proposed_location = ''library'', rs_notes = None,
                       rs_status = ''APPROVED'', reject_reason = None,
                       rs_seeker_confirmed = False, rs_finder_confirmed = False\<rparr>],
                   notifications :=
                     [\<lparr>n_user_id = 10, n_type = SCHEDULE, related_session_id = Some 1\<rparr>,
                      \<lparr>n_user_id = 20, n_type = NEGOTIATION_UPDATE,
                        related_session_id = Some 1\<rparr>]\<rparr>"

text \<open>A script for two negotiations: a rejection on the second turn, then an agreement.\<close>

definition script_reject_agree :: "string list" where
  "script_reject_agree = [''ASK'', ''REJECT'', ''ASK'', ''AGREE'']"

section \<open>Properties of the matching engine\<close>

lemma set_slice_to: "set (slice_to xs n) \<subseteq> set xs"
  by (auto simp: slice_to_def dest: in_set_takeD)

lemma find_matches_subset:
  "(i, score) \<in> set (find_matches sim db lost limit) \<Longrightarrow>
     i \<in> set (items db) \<and> score = calculate_match_score sim lost i \<and> MIN_MATCH_SCORE \<le> score
     \<and> item_type i = FOUND \<and> (item_status i = OPEN \<or> item_status i = MATCHING)
     \<and> owner_id i \<noteq> owner_id lost
     \<and> (\<forall>f \<in> set (failed_matches db). fm_lost_item_id f = Some (item_id lost)
            \<longrightarrow> fm_found_item_id f \<noteq> Some (item_id i))"
  unfolding find_matches_def Let_def
  apply (drule subsetD [OF set_slice_to])
  apply (simp split: if_splits add: sql_notin_def filter_empty_conv)
  apply (auto simp: image_iff)
  done

lemma find_matches_other_lost_items:
  "find_matches sim
     (db\<lparr>failed_matches :=
           filter (\<lambda>f. fm_lost_item_id f = Some (item_id lost)) (failed_matches db)\<rparr>)
     lost limit
   = find_matches sim db lost limit"
  by (simp add: find_matches_def)

text \<open>
  C3. Whenever the table of failed matches holds a record for the pair of a lost item
  and a found item, \<open>find_matches\<close> for that lost item returns no candidate with the
  found item's id, whatever the similarity function, the limit and the rest of the
  database are. The exclusion is per pair: the records of other lost items play no part
  in the result.
\<close>

theorem find_matches_excludes_failed_pair:
  assumes "fm \<in> set (failed_matches db)"
    and "fm_lost_item_id fm = Some (item_id lost)"
    and "fm_found_item_id fm = Some fid"
  shows "fid \<notin> set (map (\<lambda>(i, score). item_id i) (find_matches sim db lost limit))
    \<and> find_matches sim
         (db\<lparr>failed_matches :=
               filter (\<lambda>f. fm_lost_item_id f = Some (item_id lost)) (failed_matches db)\<rparr>)
         lost limit
       = find_matches sim db lost limit"
proof
  show "fid \<notin> set (map (\<lambda>(i, score). item_id i) (find_matches sim db lost limit))"
  proof
    assume "fid \<in> set (map (\<lambda>(i, score). item_id i) (find_matches sim db lost limit))"
    then obtain i score where m: "(i, score) \<in> set (find_matches sim db lost limit)"
      and fid: "item_id i = fid"
      by auto
    from find_matches_subset [OF m] assms have "fm_found_item_id fm \<noteq> Some (item_id i)"
      by blast
    with assms(3) fid show False
      by simp
  qed
next
  show "find_matches sim
         (db\<lparr>failed_matches :=
               filter (\<lambda>f. fm_lost_item_id f = Some (item_id lost)) (failed_matches db)\<rparr>)
         lost limit
       = find_matches sim db lost limit"
    by (rule find_matches_other_lost_items)
qed

lemma score_lost1_found2: "calculate_match_score sim_equal lost1 found2 = 0.5714"
  by (simp add: calculate_match_score_def comparisons_def weighted_score_def lost1_def
      found2_def sim_equal_def or_empty_def py_round_def round_half_even_def Let_def)

lemma score_lost1_found3: "calculate_match_score sim_equal lost1 found3 = 0.5"
  by (simp add: calculate_match_score_def comparisons_def weighted_score_def lost1_def
      found3_def sim_equal_def or_empty_def py_round_def round_half_even_def Let_def)

lemma find_matches_db_items:
  "find_matches sim_equal db_items lost1 10 = [(found2, 0.5714), (found3, 0.5)]"
  apply (simp add: find_matches_def db_items_def Let_def slice_to_def
      MIN_MATCH_SCORE_def score_lost1_found2 score_lost1_found3)
  apply (simp add: lost1_def found2_def found3_def)
  done

lemma find_matches_db_failed:
  "find_matches sim_equal db_failed lost1 10 = [(found3, 0.5)]"
  apply (simp add: find_matches_def db_failed_def db_items_def failed_1_2_def Let_def
      sql_notin_def slice_to_def MIN_MATCH_SCORE_def score_lost1_found2 score_lost1_found3)
  apply (simp add: lost1_def found2_def found3_def)
  done

theorem find_matches_excludes_failed_pair_witness:
  "failed_1_2 \<in> set (failed_matches db_failed)
   \<and> fm_lost_item_id failed_1_2 = Some (item_id lost1)
   \<and> fm_found_item_id failed_1_2 = Some 2
   \<and> 2 \<in> set (map (\<lambda>(i, score). item_id i) (find_matches sim_equal db_items lost1 10))
   \<and> 2 \<notin> set (map (\<lambda>(i, score). item_id i) (find_matches sim_equal db_failed lost1 10))"
proof -
  have h1: "failed_1_2 \<in> set (failed_matches db_failed)"
    by (simp add: db_failed_def)
  have h2: "fm_lost_item_id failed_1_2 = Some (item_id lost1)"
    by (simp add: failed_1_2_def lost1_def)
  have h3: "fm_found_item_id failed_1_2 = Some 2"
    by (simp add: failed_1_2_def)
  have before: "2 \<in> set (map (\<lambda>(i, score). item_id i) (find_matches sim_equal db_items lost1 10))"
    by (simp add: find_matches_db_items found2_def)
  from find_matches_excludes_failed_pair [OF h1 h2 h3, of sim_equal 10] h1 h2 h3 before
  show ?thesis
    by blast
qed

section \<open>Properties of the score\<close>









section \<open>Properties of the negotiation loop\<close>

lemma current_agent_roles: "current_agent chat = ''Seeker'' \<or> current_agent chat = ''Finder''"
  by (simp add: current_agent_def)

lemma current_agent_after:
  "sender m = current_agent chat \<Longrightarrow> current_agent (chat @ [m]) \<noteq> current_agent chat"
  by (auto simp: current_agent_def split: if_splits)

text \<open>
  What the loop does to the session, whatever the decision function answers: it appends
  at most as many turns as rounds remain and changes nothing but chat log and status;
  each turn is sent by \<open>current_agent\<close> of the log before it; every turn but the last
  carries an action other than AGREE and REJECT.
\<close>

lemma negotiation_rounds_turns:
  assumes "negotiation_rounds llm seeker finder k round_num session l = (r, session', l')"
  shows "\<exists>new. session' = session\<lparr>chat_log := chat_log session @ new, status := status session'\<rparr>
    \<and> length new \<le> k
    \<and> (\<forall>i < length new. sender (new ! i) = current_agent (chat_log session @ take i new))
    \<and> (\<forall>m \<in> set (butlast new). action_type m \<noteq> Some ''AGREE'' \<and> action_type m \<noteq> Some ''REJECT'')"
  using assms
proof (induction k arbitrary: round_num session l)
  case 0
  then have "session' = session\<lparr>status := FAILED\<rparr>"
    by simp
  then have "session' = session\<lparr>chat_log := chat_log session @ [], status := status session'\<rparr>"
    by simp
  then show ?case
    by (intro exI [of _ "[]"]) simp
next
  case (Suc k)
  let ?role = "current_agent (chat_log session)"
  let ?know = "if ?role = ''Seeker'' then seeker else finder"
  show ?case
  proof (cases ?know)
    case None
    with Suc.prems have "session' = session"
      by (simp add: Let_def)
    then have "session' = session\<lparr>chat_log := chat_log session @ [], status := status session'\<rparr>"
      by simp
    then show ?thesis
      by (intro exI [of _ "[]"]) simp
  next
    case (Some item)
    obtain d l1 where d: "llm l ?role item (chat_log session) = (d, l1)"
      by (cases "llm l ?role item (chat_log session)")
    let ?m = "\<lparr>sender = ?role, content = d_content d, action_type = d_action d\<rparr>"
    let ?s1 = "session\<lparr>chat_log := chat_log session @ [?m]\<rparr>"
    show ?thesis
    proof (cases "d_action d = Some ''AGREE'' \<or> d_action d = Some ''REJECT''")
      case True
      with Suc.prems Some d
      have "session' = ?s1\<lparr>status := PENDING_CONFIRM\<rparr> \<or> session' = ?s1\<lparr>status := FAILED\<rparr>"
        by (auto simp: Let_def split: if_splits)
      then have "session' = session\<lparr>chat_log := chat_log session @ [?m], status := status session'\<rparr>"
        by auto
      then show ?thesis
        by (intro exI [of _ "[?m]"]) simp
    next
      case False
      with Suc.prems Some d
      have rec: "negotiation_rounds llm seeker finder k (Suc round_num) ?s1 l1 = (r, session', l')"
        by (simp add: Let_def)
      from Suc.IH [OF rec] obtain new where
        n1: "session' = ?s1\<lparr>chat_log := chat_log ?s1 @ new, status := status session'\<rparr>"
        and n2: "length new \<le> k"
        and n3: "\<forall>i < length new. sender (new ! i) = current_agent (chat_log ?s1 @ take i new)"
        and n4: "\<forall>m \<in> set (butlast new). action_type m \<noteq> Some ''AGREE'' \<and> action_type m \<noteq> Some ''REJECT''"
        by blast
      from n1 have a1: "session' = session\<lparr>chat_log := chat_log session @ (?m # new),
          status := status session'\<rparr>"
        by simp
      have a3: "\<forall>i < length (?m # new).
          sender ((?m # new) ! i) = current_agent (chat_log session @ take i (?m # new))"
      proof (intro allI impI)
        fix i
        assume "i < length (?m # new)"
        then show "sender ((?m # new) ! i) = current_agent (chat_log session @ take i (?m # new))"
          using n3 by (cases i) simp_all
      qed
      have a4: "\<forall>m \<in> set (butlast (?m # new)).
          action_type m \<noteq> Some ''AGREE'' \<and> action_type m \<noteq> Some ''REJECT''"
        using n4 False by (cases new) auto
      from a1 n2 a3 a4 show ?thesis
        by (intro exI [of _ "?m # new"]) simp
    qed
  qed
qed


text \<open>With both items present the loop ends in one of three ways.\<close>

lemma negotiation_rounds_outcome:
  assumes "negotiation_rounds llm (Some s) (Some f) k round_num session l = (r, session', l')"
  shows "\<exists>new. chat_log session' = chat_log session @ new
    \<and> ((r = Inr (StatusResult ''SUCCESS'' (round_num + length new))
          \<and> status session' = PENDING_CONFIRM \<and> new \<noteq> []
          \<and> action_type (last new) = Some ''AGREE'')
       \<or> (r = Inr (StatusResult ''FAILED'' (round_num + length new))
          \<and> status session' = FAILED \<and> new \<noteq> []
          \<and> action_type (last new) = Some ''REJECT'')
       \<or> (r = Inr (StatusResult ''MAX_ROUNDS'' MAX_NEGOTIATION_ROUNDS)
          \<and> status session' = FAILED \<and> length new = k
          \<and> (\<forall>m \<in> set new. action_type m \<noteq> Some ''AGREE'' \<and> action_type m \<noteq> Some ''REJECT'')))"
  using assms
proof (induction k arbitrary: round_num session l)
  case 0
  then show ?case
    by (intro exI [of _ "[]"]) auto
next
  case (Suc k)
  let ?role = "current_agent (chat_log session)"
  let ?item = "if ?role = ''Seeker'' then s else f"
  obtain d l1 where d: "llm l ?role ?item (chat_log session) = (d, l1)"
    by (cases "llm l ?role ?item (chat_log session)")
  let ?m = "\<lparr>sender = ?role, content = d_content d, action_type = d_action d\<rparr>"
  let ?s1 = "session\<lparr>chat_log := chat_log session @ [?m]\<rparr>"
  consider (agree) "d_action d = Some ''AGREE''"
    | (reject) "d_action d \<noteq> Some ''AGREE''" "d_action d = Some ''REJECT''"
    | (other) "d_action d \<noteq> Some ''AGREE''" "d_action d \<noteq> Some ''REJECT''"
    by blast
  then show ?case
  proof cases
    case agree
    with Suc.prems d have "r = Inr (StatusResult ''SUCCESS'' (round_num + 1))"
      and "session' = ?s1\<lparr>status := PENDING_CONFIRM\<rparr>"
      by (auto simp: Let_def split: if_splits)
    with agree show ?thesis
      by (intro exI [of _ "[?m]"]) simp
  next
    case reject
    with Suc.prems d have "r = Inr (StatusResult ''FAILED'' (round_num + 1))"
      and "session' = ?s1\<lparr>status := FAILED\<rparr>"
      by (auto simp: Let_def split: if_splits)
    with reject show ?thesis
      by (intro exI [of _ "[?m]"]) simp
  next
    case other
    with Suc.prems d
    have rec: "negotiation_rounds llm (Some s) (Some f) k (Suc round_num) ?s1 l1 = (r, session', l')"
      by (auto simp: Let_def split: if_splits)
    from Suc.IH [OF rec] obtain new where
      n1: "chat_log session' = chat_log ?s1 @ new"
      and n2: "(r = Inr (StatusResult ''SUCCESS'' (Suc round_num + length new))
          \<and> status session' = PENDING_CONFIRM \<and> new \<noteq> []
          \<and> action_type (last new) = Some ''AGREE'')
       \<or> (r = Inr (StatusResult ''FAILED'' (Suc round_num + length new))
          \<and> status session' = FAILED \<and> new \<noteq> []
          \<and> action_type (last new) = Some ''REJECT'')
       \<or> (r = Inr (StatusResult ''MAX_ROUNDS'' MAX_NEGOTIATION_ROUNDS)
          \<and> status session' = FAILED \<and> length new = k
          \<and> (\<forall>m \<in> set new. action_type m \<noteq> Some ''AGREE'' \<and> action_type m \<noteq> Some ''REJECT''))"
      by blast
    from n1 have "chat_log session' = chat_log session @ (?m # new)"
      by simp
    moreover from n2 other have "(r = Inr (StatusResult ''SUCCESS'' (round_num + length (?m # new)))
          \<and> status session' = PENDING_CONFIRM \<and> ?m # new \<noteq> []
          \<and> action_type (last (?m # new)) = Some ''AGREE'')
       \<or> (r = Inr (StatusResult ''FAILED'' (round_num + length (?m # new)))
          \<and> status session' = FAILED \<and> ?m # new \<noteq> []
          \<and> action_type (last (?m # new)) = Some ''REJECT'')
       \<or> (r = Inr (StatusResult ''MAX_ROUNDS'' MAX_NEGOTIATION_ROUNDS)
          \<and> status session' = FAILED \<and> length (?m # new) = Suc k
          \<and> (\<forall>m \<in> set (?m # new). action_type m \<noteq> Some ''AGREE'' \<and> action_type m \<noteq> Some ''REJECT''))"
      by auto
    ultimately show ?thesis
      by blast
  qed
qed

lemma get_put_session:
  assumes "get_session db sid = Some s" and "session_id s' = sid"
  shows "get_session (put_session db s') sid = Some s'"
proof -
  have "find (\<lambda>x. session_id x = sid) xs = Some s \<Longrightarrow>
      find (\<lambda>x. session_id x = sid) (map (\<lambda>x. if session_id x = sid then s' else x) xs) = Some s'"
    for xs
    using assms(2) by (induction xs) (auto split: if_splits)
  with assms show ?thesis
    by (simp add: get_session_def put_session_def)
qed

lemma get_session_id: "get_session db sid = Some s \<Longrightarrow> session_id s = sid"
  by (auto simp: get_session_def find_Some_iff)


lemma run_full_negotiation_active:
  assumes "get_session db sid = Some session" and "status session = ACTIVE"
  obtains r session' l' new where
    "negotiation_rounds llm (lost_item db session) (found_item db session)
       MAX_NEGOTIATION_ROUNDS 0 session l = (r, session', l')"
    and "run_full_negotiation llm l db sid = (r, put_session db session', l')"
    and "get_session (put_session db session') sid = Some session'"
    and "session' = session\<lparr>chat_log := chat_log session @ new, status := status session'\<rparr>"
    and "length new \<le> MAX_NEGOTIATION_ROUNDS"
    and "\<forall>i < length new. sender (new ! i) = current_agent (chat_log session @ take i new)"
    and "\<forall>m \<in> set (butlast new).
           action_type m \<noteq> Some ''AGREE'' \<and> action_type m \<noteq> Some ''REJECT''"
proof -
  obtain r session' l' where nr:
    "negotiation_rounds llm (lost_item db session) (found_item db session)
       MAX_NEGOTIATION_ROUNDS 0 session l = (r, session', l')"
    by (metis prod_cases3)
  from negotiation_rounds_turns [OF nr] obtain new where
    n1: "session' = session\<lparr>chat_log := chat_log session @ new, status := status session'\<rparr>"
    and n2: "length new \<le> MAX_NEGOTIATION_ROUNDS"
    and n3: "\<forall>i < length new. sender (new ! i) = current_agent (chat_log session @ take i new)"
    and n4: "\<forall>m \<in> set (butlast new).
           action_type m \<noteq> Some ''AGREE'' \<and> action_type m \<noteq> Some ''REJECT''"
    by blast
  from n1 have "session_id session' = session_id session"
    by (metis NegotiationSession.select_convs(1) NegotiationSession.surjective
        NegotiationSession.update_convs(4,6))
  with get_session_id [OF assms(1)] have "session_id session' = sid"
    by simp
  from get_put_session [OF assms(1) this]
  have g: "get_session (put_session db session') sid = Some session'" .
  from assms nr have "run_full_negotiation llm l db sid = (r, put_session db session', l')"
    by (simp add: run_full_negotiation_def)
  with nr g n1 n2 n3 n4 that show thesis
    by blast
qed

text \<open>
  C6. For an ACTIVE session whose two items exist, \<open>run_full_negotiation\<close> returns a
  status and a number of rounds; it has appended exactly that many turns to the chat
  log, at most \<open>MAX_NEGOTIATION_ROUNDS = 20\<close>. Every turn before the last carries an
  action other than AGREE and REJECT (the dialogue went on after it). The session ends
  as PENDING_CONFIRM exactly when a turn carries AGREE; it ends as FAILED when a turn
  carries REJECT, and as FAILED after \<open>MAX_NEGOTIATION_ROUNDS\<close> turns when no turn
  carries either.
\<close>

theorem run_full_negotiation_terminates:
  assumes "get_session db sid = Some session" and "status session = ACTIVE"
    and "lost_item db session = Some li" and "found_item db session = Some fi"
  shows "\<exists>st rounds session' new.
      fst (run_full_negotiation llm l db sid) = Inr (StatusResult st rounds)
    \<and> get_session (fst (snd (run_full_negotiation llm l db sid))) sid = Some session'
    \<and> chat_log session' = chat_log session @ new
    \<and> length new = rounds \<and> rounds \<le> MAX_NEGOTIATION_ROUNDS \<and> MAX_NEGOTIATION_ROUNDS = 20
    \<and> (\<forall>m \<in> set (butlast new).
          action_type m \<noteq> Some ''AGREE'' \<and> action_type m \<noteq> Some ''REJECT'')
    \<and> (status session' = PENDING_CONFIRM \<longleftrightarrow> (\<exists>m \<in> set new. action_type m = Some ''AGREE''))
    \<and> ((\<exists>m \<in> set new. action_type m = Some ''REJECT'') \<longrightarrow> status session' = FAILED)
    \<and> ((\<forall>m \<in> set new. action_type m \<noteq> Some ''AGREE'' \<and> action_type m \<noteq> Some ''REJECT'')
         \<longrightarrow> status session' = FAILED \<and> rounds = MAX_NEGOTIATION_ROUNDS)
    \<and> (status session' = PENDING_CONFIRM \<or> status session' = FAILED)"
proof -
  from assms(1,2) obtain r session' l' new where
    nr: "negotiation_rounds llm (lost_item db session) (found_item db session)
       MAX_NEGOTIATION_ROUNDS 0 session l = (r, session', l')"
    and run: "run_full_negotiation llm l db sid = (r, put_session db session', l')"
    and g: "get_session (put_session db session') sid = Some session'"
    and n1: "session' = session\<lparr>chat_log := chat_log session @ new, status := status session'\<rparr>"
    and n2: "length new \<le> MAX_NEGOTIATION_ROUNDS"
    and n4: "\<forall>m \<in> set (butlast new).
           action_type m \<noteq> Some ''AGREE'' \<and> action_type m \<noteq> Some ''REJECT''"
    by (rule run_full_negotiation_active [where llm = llm and l = l])
  from n1 have c: "chat_log session' = chat_log session @ new"
    by (metis NegotiationSession.select_convs(6) NegotiationSession.surjective
        NegotiationSession.update_convs(4,6))
  from nr assms(3,4) negotiation_rounds_outcome [of llm li fi MAX_NEGOTIATION_ROUNDS 0 session l r session' l']
  obtain new' where c': "chat_log session' = chat_log session @ new'"
    and o: "(r = Inr (StatusResult ''SUCCESS'' (0 + length new'))
          \<and> status session' = PENDING_CONFIRM \<and> new' \<noteq> []
          \<and> action_type (last new') = Some ''AGREE'')
       \<or> (r = Inr (StatusResult ''FAILED'' (0 + length new'))
          \<and> status session' = FAILED \<and> new' \<noteq> []
          \<and> action_type (last new') = Some ''REJECT'')
       \<or> (r = Inr (StatusResult ''MAX_ROUNDS'' MAX_NEGOTIATION_ROUNDS)
          \<and> status session' = FAILED \<and> length new' = MAX_NEGOTIATION_ROUNDS
          \<and> (\<forall>m \<in> set new'. action_type m \<noteq> Some ''AGREE'' \<and> action_type m \<noteq> Some ''REJECT''))"
    by auto
  from c c' have eq: "new' = new"
    by simp
  have inlast: "new \<noteq> [] \<Longrightarrow> m \<in> set new \<Longrightarrow> m \<in> set (butlast new) \<or> m = last new" for m
    by (metis Un_iff append_butlast_last_id empty_iff empty_set set_ConsD set_append)
  from o eq consider
    (agree) "r = Inr (StatusResult ''SUCCESS'' (length new))" "status session' = PENDING_CONFIRM"
      "new \<noteq> []" "action_type (last new) = Some ''AGREE''"
    | (reject) "r = Inr (StatusResult ''FAILED'' (length new))" "status session' = FAILED"
      "new \<noteq> []" "action_type (last new) = Some ''REJECT''"
    | (limit) "r = Inr (StatusResult ''MAX_ROUNDS'' MAX_NEGOTIATION_ROUNDS)"
      "status session' = FAILED" "length new = MAX_NEGOTIATION_ROUNDS"
      "\<forall>m \<in> set new. action_type m \<noteq> Some ''AGREE'' \<and> action_type m \<noteq> Some ''REJECT''"
    by auto
  then have "\<exists>st rounds. r = Inr (StatusResult st rounds)
    \<and> length new = rounds
    \<and> (status session' = PENDING_CONFIRM \<longleftrightarrow> (\<exists>m \<in> set new. action_type m = Some ''AGREE''))
    \<and> ((\<exists>m \<in> set new. action_type m = Some ''REJECT'') \<longrightarrow> status session' = FAILED)
    \<and> ((\<forall>m \<in> set new. action_type m \<noteq> Some ''AGREE'' \<and> action_type m \<noteq> Some ''REJECT'')
         \<longrightarrow> status session' = FAILED \<and> rounds = MAX_NEGOTIATION_ROUNDS)
    \<and> (status session' = PENDING_CONFIRM \<or> status session' = FAILED)"
  proof cases
    case agree
    then have "\<exists>m \<in> set new. action_type m = Some ''AGREE''"
      using last_in_set by blast
    moreover have "\<forall>m \<in> set new. action_type m \<noteq> Some ''REJECT''"
      using inlast n4 agree by fastforce
    ultimately show ?thesis
      using agree by auto
  next
    case reject
    then have "\<exists>m \<in> set new. action_type m = Some ''REJECT''"
      using last_in_set by blast
    moreover have "\<forall>m \<in> set new. action_type m \<noteq> Some ''AGREE''"
      using inlast n4 reject by fastforce
    ultimately show ?thesis
      using reject by auto
  next
    case limit
    then show ?thesis
      by auto
  qed
  with run g c n2 n4 show ?thesis
    by (auto simp: MAX_NEGOTIATION_ROUNDS_def)
qed

lemmas example_defs = db_active_def session_active_def db_items_def
  lost1_def found2_def found3_def Let_def

lemmas negotiation_defs = get_session_def lost_item_def found_item_def get_item_def
  run_full_negotiation_def MAX_NEGOTIATION_ROUNDS_def eval_nat_numeral scripted_def
  current_agent_def put_session_def

lemma db_active_session:
  "get_session db_active 1 = Some session_active \<and> status session_active = ACTIVE
   \<and> lost_item db_active session_active = Some (lost1\<lparr>item_status := NEGOTIATING\<rparr>)
   \<and> found_item db_active session_active = Some (found2\<lparr>item_status := NEGOTIATING\<rparr>)"
  by (simp add: example_defs get_session_def lost_item_def found_item_def get_item_def)

lemma run_agree:
  "fst (run_full_negotiation scripted script_agree db_active 1) = Inr (StatusResult ''SUCCESS'' 5)
   \<and> map_option status
        (get_session (fst (snd (run_full_negotiation scripted script_agree db_active 1))) 1)
      = Some PENDING_CONFIRM
   \<and> map_option (map sender \<circ> chat_log)
        (get_session (fst (snd (run_full_negotiation scripted script_agree db_active 1))) 1)
      = Some [''Seeker'', ''Finder'', ''Seeker'', ''Finder'', ''Seeker'']"
  by (simp add: example_defs negotiation_defs script_agree_def)

lemma run_reject:
  "fst (run_full_negotiation scripted script_reject db_active 1) = Inr (StatusResult ''FAILED'' 2)
   \<and> map_option status
        (get_session (fst (snd (run_full_negotiation scripted script_reject db_active 1))) 1)
      = Some FAILED"
  by (simp add: example_defs negotiation_defs script_reject_def)

lemma run_max_rounds:
  "fst (run_full_negotiation scripted [] db_active 1) = Inr (StatusResult ''MAX_ROUNDS'' 20)
   \<and> map_option (length \<circ> chat_log)
        (get_session (fst (snd (run_full_negotiation scripted [] db_active 1))) 1) = Some 20"
  by (simp add: example_defs negotiation_defs)

theorem run_full_negotiation_terminates_witness:
  "get_session db_active 1 = Some session_active \<and> status session_active = ACTIVE
   \<and> lost_item db_active session_active = Some (lost1\<lparr>item_status := NEGOTIATING\<rparr>)
   \<and> found_item db_active session_active = Some (found2\<lparr>item_status := NEGOTIATING\<rparr>)
   \<and> fst (run_full_negotiation scripted script_agree db_active 1)
       = Inr (StatusResult ''SUCCESS'' 5)
   \<and> (\<exists>session' new.
        get_session (fst (snd (run_full_negotiation scripted script_agree db_active 1))) 1
          = Some session'
      \<and> chat_log session' = chat_log session_active @ new \<and> length new = 5
      \<and> status session' = PENDING_CONFIRM
      \<and> (\<exists>m \<in> set new. action_type m = Some ''AGREE''))"
proof -
  note h = db_active_session
  from h have h1: "get_session db_active 1 = Some session_active"
    and h2: "status session_active = ACTIVE"
    and h3: "lost_item db_active session_active = Some (lost1\<lparr>item_status := NEGOTIATING\<rparr>)"
    and h4: "found_item db_active session_active = Some (found2\<lparr>item_status := NEGOTIATING\<rparr>)"
    by simp_all
  from run_full_negotiation_terminates [OF h1 h2 h3 h4, of scripted script_agree]
  obtain st rounds session' new where
    r: "fst (run_full_negotiation scripted script_agree db_active 1) = Inr (StatusResult st rounds)"
    and g: "get_session (fst (snd (run_full_negotiation scripted script_agree db_active 1))) 1
          = Some session'"
    and c: "chat_log session' = chat_log session_active @ new" "length new = rounds"
    and p: "status session' = PENDING_CONFIRM \<longleftrightarrow> (\<exists>m \<in> set new. action_type m = Some ''AGREE'')"
    by blast
  from r run_agree have "rounds = 5"
    by simp
  moreover from g run_agree have "status session' = PENDING_CONFIRM"
    by simp
  ultimately show ?thesis
    using h run_agree g c p by auto
qed

text \<open>
  C7. In the chat log that \<open>run_full_negotiation\<close> leaves for an ACTIVE session, the
  turns of this run are sent by the Seeker and the Finder agent only; the Seeker sends
  the first one when the log was empty; after a log that ends with a Seeker turn the
  Finder sends the first one, and the Seeker otherwise; and no turn has the sender of
  the turn before it.
\<close>

theorem negotiation_turns_alternate:
  assumes "get_session db sid = Some session" and "status session = ACTIVE"
  shows "\<exists>session' new.
      get_session (fst (snd (run_full_negotiation llm l db sid))) sid = Some session'
    \<and> chat_log session' = chat_log session @ new
    \<and> (\<forall>i < length new. sender (new ! i) = ''Seeker'' \<or> sender (new ! i) = ''Finder'')
    \<and> (chat_log session = [] \<and> new \<noteq> [] \<longrightarrow> sender (hd new) = ''Seeker'')
    \<and> (chat_log session \<noteq> [] \<and> new \<noteq> [] \<longrightarrow>
         sender (hd new)
           = (if sender (last (chat_log session)) = ''Seeker'' then ''Finder'' else ''Seeker''))
    \<and> (\<forall>i. Suc i < length new \<longrightarrow> sender (new ! Suc i) \<noteq> sender (new ! i))"
proof -
  from assms obtain r session' l' new where
    run: "run_full_negotiation llm l db sid = (r, put_session db session', l')"
    and g: "get_session (put_session db session') sid = Some session'"
    and n1: "session' = session\<lparr>chat_log := chat_log session @ new, status := status session'\<rparr>"
    and n3: "\<forall>i < length new. sender (new ! i) = current_agent (chat_log session @ take i new)"
    by (rule run_full_negotiation_active [where llm = llm and l = l])
  from n1 have c: "chat_log session' = chat_log session @ new"
    by (metis NegotiationSession.select_convs(6) NegotiationSession.surjective
        NegotiationSession.update_convs(4,6))
  have roles: "\<forall>i < length new. sender (new ! i) = ''Seeker'' \<or> sender (new ! i) = ''Finder''"
    using n3 current_agent_roles by simp
  have first: "new \<noteq> [] \<Longrightarrow> sender (hd new) = current_agent (chat_log session)"
    using n3 by (cases new) auto
  have alt: "sender (new ! Suc i) \<noteq> sender (new ! i)" if "Suc i < length new" for i
  proof -
    from that have i: "i < length new"
      by simp
    let ?before = "chat_log session @ take i new"
    from n3 i have s: "sender (new ! i) = current_agent ?before"
      by simp
    from n3 that have "sender (new ! Suc i) = current_agent (chat_log session @ take (Suc i) new)"
      by simp
    also from i have "chat_log session @ take (Suc i) new = ?before @ [new ! i]"
      by (simp add: take_Suc_conv_app_nth)
    finally have "sender (new ! Suc i) = current_agent (?before @ [new ! i])" .
    with current_agent_after [OF s] s show ?thesis
      by simp
  qed
  from run g c roles first alt show ?thesis
    by (auto simp: current_agent_def)
qed

theorem negotiation_turns_alternate_witness:
  "get_session db_active 1 = Some session_active \<and> status session_active = ACTIVE
   \<and> chat_log session_active = []
   \<and> (\<exists>session' new.
        get_session (fst (snd (run_full_negotiation scripted script_agree db_active 1))) 1
          = Some session'
      \<and> chat_log session' = new
      \<and> map sender new = [''Seeker'', ''Finder'', ''Seeker'', ''Finder'', ''Seeker'']
      \<and> sender (hd new) = ''Seeker''
      \<and> (\<forall>i. Suc i < length new \<longrightarrow> sender (new ! Suc i) \<noteq> sender (new ! i)))"
proof -
  from db_active_session have h1: "get_session db_active 1 = Some session_active"
    and h2: "status session_active = ACTIVE"
    by simp_all
  have e: "chat_log session_active = []"
    by (simp add: example_defs)
  from negotiation_turns_alternate [OF h1 h2, of scripted script_agree]
  obtain session' new where
    g: "get_session (fst (snd (run_full_negotiation scripted script_agree db_active 1))) 1
          = Some session'"
    and c: "chat_log session' = chat_log session_active @ new"
    and f: "chat_log session_active = [] \<and> new \<noteq> [] \<longrightarrow> sender (hd new) = ''Seeker''"
    and a: "\<forall>i. Suc i < length new \<longrightarrow> sender (new ! Suc i) \<noteq> sender (new ! i)"
    by blast
  from g run_agree have m: "map sender (chat_log session') = [''Seeker'', ''Finder'', ''Seeker'', ''Finder'', ''Seeker'']"
    by simp
  with c e have "new \<noteq> []"
    by auto
  with h1 h2 e g c f a m show ?thesis
    by auto
qed

section \<open>Frame lemmas of the row updates\<close>

lemma get_item_id: "get_item db i = Some x \<Longrightarrow> item_id x = i"
  by (auto simp: get_item_def find_Some_iff)

lemma lost_item_id: "lost_item db s = Some x \<Longrightarrow> lost_item_id s = Some (item_id x)"
  by (auto simp: lost_item_def get_item_id split: option.splits)

lemma found_item_id: "found_item db s = Some x \<Longrightarrow> found_item_id s = Some (item_id x)"
  by (auto simp: found_item_def get_item_id split: option.splits)

lemma put_session_frame:
  "items (put_session db s) = items db"
  "item_images (put_session db s) = item_images db"
  "failed_matches (put_session db s) = failed_matches db"
  "return_schedules (put_session db s) = return_schedules db"
  "notifications (put_session db s) = notifications db"
  "get_item (put_session db s) i = get_item db i"
  "lost_item (put_session db s) x = lost_item db x"
  "found_item (put_session db s) x = found_item db x"
  by (simp_all add: put_session_def get_item_def lost_item_def found_item_def
      split: option.splits)

lemma set_item_status_frame:
  "negotiation_sessions (set_item_status db i st) = negotiation_sessions db"
  "item_images (set_item_status db i st) = item_images db"
  "failed_matches (set_item_status db i st) = failed_matches db"
  "return_schedules (set_item_status db i st) = return_schedules db"
  "notifications (set_item_status db i st) = notifications db"
  "get_session (set_item_status db i st) sid = get_session db sid"
  by (simp_all add: set_item_status_def get_session_def)

lemma find_map_status:
  "find (\<lambda>x. item_id x = j) (map (\<lambda>x. if item_id x = i then x\<lparr>item_status := st\<rparr> else x) xs)
   = (if j = i then map_option (\<lambda>x. x\<lparr>item_status := st\<rparr>) (find (\<lambda>x. item_id x = j) xs)
      else find (\<lambda>x. item_id x = j) xs)"
  by (induction xs) auto

lemma get_item_set_item_status:
  "get_item (set_item_status db i st) j
   = (if j = i then map_option (\<lambda>x. x\<lparr>item_status := st\<rparr>) (get_item db j) else get_item db j)"
  by (simp add: get_item_def set_item_status_def find_map_status)

lemma item_status_after_set:
  "get_item db j = Some x \<Longrightarrow>
   map_option item_status (get_item (set_item_status db i st) j)
   = Some (if j = i then st else item_status x)"
  by (auto simp: get_item_set_item_status)

lemma failed_matches_update_frame:
  "get_session (db\<lparr>failed_matches := fs\<rparr>) sid = get_session db sid"
  "get_item (db\<lparr>failed_matches := fs\<rparr>) i = get_item db i"
  "lost_item (db\<lparr>failed_matches := fs\<rparr>) s = lost_item db s"
  "found_item (db\<lparr>failed_matches := fs\<rparr>) s = found_item db s"
  by (simp_all add: get_session_def get_item_def lost_item_def found_item_def
      split: option.splits)

text \<open>What \<open>handle_failure\<close> and \<open>handle_success\<close> do when both items exist.\<close>

lemma handle_failure_effect:
  assumes "lost_item db s = Some li" and "found_item db s = Some fi"
  shows "\<exists>db'. handle_failure db s r = Inr db'
    \<and> failed_matches db' = failed_matches db @
         [\<lparr>fm_lost_item_id = Some (item_id li), fm_found_item_id = Some (item_id fi),
           fm_session_id = Some (session_id s), reason = r\<rparr>]
    \<and> map_option item_status (get_item db' (item_id li)) = Some OPEN
    \<and> map_option item_status (get_item db' (item_id fi)) = Some OPEN
    \<and> (\<forall>j. j \<noteq> item_id li \<and> j \<noteq> item_id fi \<longrightarrow> get_item db' j = get_item db j)
    \<and> negotiation_sessions db' = negotiation_sessions db
    \<and> return_schedules db' = return_schedules db
    \<and> notifications db' = notifications db
    \<and> item_images db' = item_images db"
proof -
  from assms have i: "get_item db (item_id li) = Some li" "get_item db (item_id fi) = Some fi"
    by (auto simp: lost_item_def found_item_def split: option.splits dest: get_item_id)
  from assms lost_item_id [OF assms(1)] found_item_id [OF assms(2)] i show ?thesis
    by (simp add: handle_failure_def Let_def set_item_status_frame get_item_set_item_status
        failed_matches_update_frame)
qed

lemma handle_success_effect:
  assumes "lost_item db s = Some li" and "found_item db s = Some fi"
  shows "\<exists>db'. handle_success db s = Inr db'
    \<and> map_option item_status (get_item db' (item_id li)) = Some MATCHED
    \<and> map_option item_status (get_item db' (item_id fi)) = Some MATCHED
    \<and> (\<forall>j. j \<noteq> item_id li \<and> j \<noteq> item_id fi \<longrightarrow> get_item db' j = get_item db j)
    \<and> failed_matches db' = failed_matches db
    \<and> negotiation_sessions db' = negotiation_sessions db
    \<and> return_schedules db' = return_schedules db
    \<and> notifications db' = notifications db
    \<and> item_images db' = item_images db"
proof -
  from assms have i: "get_item db (item_id li) = Some li" "get_item db (item_id fi) = Some fi"
    by (auto simp: lost_item_def found_item_def split: option.splits dest: get_item_id)
  from assms i show ?thesis
    by (simp add: handle_success_def set_item_status_frame get_item_set_item_status)
qed


lemma put_session_idem: "put_session (put_session db s) s = put_session db s"
  by (simp add: put_session_def comp_def cong: map_cong)

lemma get_session_cong:
  "negotiation_sessions a = negotiation_sessions b \<Longrightarrow> get_session a sid = get_session b sid"
  by (simp add: get_session_def)

lemma lost_found_item_cong:
  "lost_item_id s' = lost_item_id s \<Longrightarrow> lost_item db s' = lost_item db s"
  "found_item_id s' = found_item_id s \<Longrightarrow> found_item db s' = found_item db s"
  by (simp_all add: lost_item_def found_item_def)

section \<open>Human confirmation\<close>

text \<open>The three outcomes of \<open>confirm_item\<close> for the owner of the lost item.\<close>

lemma confirm_item_seeker:
  assumes "get_session db sid = Some session"
    and "lost_item db session = Some li" and "found_item db session = Some fi"
    and "owner_id li = uid"
  shows "confirm_item db sid False uid
      = handle_failure (put_session db (session\<lparr>seeker_confirmed := Some False, status := REJECTED\<rparr>))
          (session\<lparr>seeker_confirmed := Some False, status := REJECTED\<rparr>)
          (Some ''user confirmed: not my item'')"
    and "finder_confirmed session \<noteq> Some True \<Longrightarrow>
      confirm_item db sid True uid = Inr (put_session db (session\<lparr>seeker_confirmed := Some True\<rparr>))"
    and "finder_confirmed session = Some True \<Longrightarrow>
      confirm_item db sid True uid
      = handle_success (put_session db (session\<lparr>seeker_confirmed := Some True, status := CONFIRMED\<rparr>))
          (session\<lparr>seeker_confirmed := Some True, status := CONFIRMED\<rparr>)"
  using assms by (simp_all add: confirm_item_def owned_by_def Let_def)

lemma confirm_item_finder:
  assumes "get_session db sid = Some session"
    and "lost_item db session = Some li" and "found_item db session = Some fi"
    and "owner_id li \<noteq> uid" and "owner_id fi = uid"
  shows "confirm_item db sid False uid
      = handle_failure (put_session db (session\<lparr>finder_confirmed := Some False, status := REJECTED\<rparr>))
          (session\<lparr>finder_confirmed := Some False, status := REJECTED\<rparr>)
          (Some ''user confirmed: not my item'')"
    and "seeker_confirmed session \<noteq> Some True \<Longrightarrow>
      confirm_item db sid True uid = Inr (put_session db (session\<lparr>finder_confirmed := Some True\<rparr>))"
    and "seeker_confirmed session = Some True \<Longrightarrow>
      confirm_item db sid True uid
      = handle_success (put_session db (session\<lparr>finder_confirmed := Some True, status := CONFIRMED\<rparr>))
          (session\<lparr>finder_confirmed := Some True, status := CONFIRMED\<rparr>)"
  using assms by (simp_all add: confirm_item_def owned_by_def Let_def)


text \<open>The outcomes for either party, in terms of the other party's flag.\<close>

lemma confirm_item_not_mine:
  assumes "get_session db sid = Some session"
    and "lost_item db session = Some li" and "found_item db session = Some fi"
    and "owner_id li = uid \<or> owner_id fi = uid"
  shows "\<exists>db' s'. confirm_item db sid False uid = Inr db'
      \<and> get_session db' sid = Some s' \<and> status s' = REJECTED
      \<and> failed_matches db' = failed_matches db @
           [\<lparr>fm_lost_item_id = Some (item_id li), fm_found_item_id = Some (item_id fi),
             fm_session_id = Some sid, reason = Some ''user confirmed: not my item''\<rparr>]
      \<and> map_option item_status (get_item db' (item_id li)) = Some OPEN
      \<and> map_option item_status (get_item db' (item_id fi)) = Some OPEN"
proof -
  define s1 where "s1 = (if owner_id li = uid
      then session\<lparr>seeker_confirmed := Some False, status := REJECTED\<rparr>
      else session\<lparr>finder_confirmed := Some False, status := REJECTED\<rparr>)"
  have id: "session_id s1 = sid" and st: "status s1 = REJECTED"
    using get_session_id [OF assms(1)] by (simp_all add: s1_def)
  have c: "confirm_item db sid False uid
      = handle_failure (put_session db s1) s1 (Some ''user confirmed: not my item'')"
    using confirm_item_seeker(1) [OF assms(1-3)] confirm_item_finder(1) [OF assms(1-3)] assms(4)
    by (auto simp: s1_def)
  have l: "lost_item (put_session db s1) s1 = Some li"
    and f: "found_item (put_session db s1) s1 = Some fi"
  proof -
    have "lost_item db s1 = lost_item db session"
      by (rule lost_found_item_cong(1)) (simp add: s1_def)
    then show "lost_item (put_session db s1) s1 = Some li"
      using assms(2) by (simp add: put_session_frame)
    have "found_item db s1 = found_item db session"
      by (rule lost_found_item_cong(2)) (simp add: s1_def)
    then show "found_item (put_session db s1) s1 = Some fi"
      using assms(3) by (simp add: put_session_frame)
  qed
  from handle_failure_effect [OF l f, of "Some ''user confirmed: not my item''"]
  obtain db' where h: "handle_failure (put_session db s1) s1 (Some ''user confirmed: not my item'') = Inr db'"
    and fm: "failed_matches db' = failed_matches (put_session db s1) @
         [\<lparr>fm_lost_item_id = Some (item_id li), fm_found_item_id = Some (item_id fi),
           fm_session_id = Some (session_id s1), reason = Some ''user confirmed: not my item''\<rparr>]"
    and o: "map_option item_status (get_item db' (item_id li)) = Some OPEN"
      "map_option item_status (get_item db' (item_id fi)) = Some OPEN"
    and ns: "negotiation_sessions db' = negotiation_sessions (put_session db s1)"
    by blast
  from get_session_cong [OF ns] get_put_session [OF assms(1) id]
  have "get_session db' sid = Some s1"
    by simp
  with c h fm o st id show ?thesis
    by (simp add: put_session_frame)
qed

lemma confirm_item_mine_waiting:
  assumes "get_session db sid = Some session"
    and "lost_item db session = Some li" and "found_item db session = Some fi"
    and "owner_id li = uid \<or> owner_id fi = uid"
    and "(if owner_id li = uid then finder_confirmed session else seeker_confirmed session)
           \<noteq> Some True"
  shows "\<exists>db' s'. confirm_item db sid True uid = Inr db'
      \<and> get_session db' sid = Some s' \<and> status s' = status session
      \<and> (if owner_id li = uid then seeker_confirmed s' else finder_confirmed s') = Some True
      \<and> items db' = items db \<and> failed_matches db' = failed_matches db
      \<and> confirm_item db' sid True uid = Inr db'"
proof -
  define s1 where "s1 = (if owner_id li = uid
      then session\<lparr>seeker_confirmed := Some True\<rparr>
      else session\<lparr>finder_confirmed := Some True\<rparr>)"
  have id: "session_id s1 = sid" and st: "status s1 = status session"
    and fl: "(if owner_id li = uid then seeker_confirmed s1 else finder_confirmed s1) = Some True"
    and other: "(if owner_id li = uid then finder_confirmed s1 else seeker_confirmed s1)
           \<noteq> Some True"
    using get_session_id [OF assms(1)] assms(5) by (auto simp: s1_def)
  have c: "confirm_item db sid True uid = Inr (put_session db s1)"
    using confirm_item_seeker(2) [OF assms(1-3)] confirm_item_finder(2) [OF assms(1-3)]
      assms(4,5)
    by (auto simp: s1_def)
  have g: "get_session (put_session db s1) sid = Some s1"
    by (rule get_put_session [OF assms(1) id])
  have l: "lost_item (put_session db s1) s1 = Some li"
    and f: "found_item (put_session db s1) s1 = Some fi"
  proof -
    have "lost_item db s1 = lost_item db session"
      by (rule lost_found_item_cong(1)) (simp add: s1_def)
    then show "lost_item (put_session db s1) s1 = Some li"
      using assms(2) by (simp add: put_session_frame)
    have "found_item db s1 = found_item db session"
      by (rule lost_found_item_cong(2)) (simp add: s1_def)
    then show "found_item (put_session db s1) s1 = Some fi"
      using assms(3) by (simp add: put_session_frame)
  qed
  have again: "s1 = (if owner_id li = uid
      then s1\<lparr>seeker_confirmed := Some True\<rparr>
      else s1\<lparr>finder_confirmed := Some True\<rparr>)"
    by (simp add: s1_def)
  have "confirm_item (put_session db s1) sid True uid
      = Inr (put_session (put_session db s1) s1)"
    using confirm_item_seeker(2) [OF g l f] confirm_item_finder(2) [OF g l f] assms(4) other again
    by (cases "owner_id li = uid") simp_all
  then have "confirm_item (put_session db s1) sid True uid = Inr (put_session db s1)"
    by (simp add: put_session_idem)
  with c g st fl show ?thesis
    by (simp add: put_session_frame)
qed

lemma confirm_item_mine_both:
  assumes "get_session db sid = Some session"
    and "lost_item db session = Some li" and "found_item db session = Some fi"
    and "owner_id li = uid \<or> owner_id fi = uid"
    and "(if owner_id li = uid then finder_confirmed session else seeker_confirmed session)
           = Some True"
  shows "\<exists>db' s'. confirm_item db sid True uid = Inr db'
      \<and> get_session db' sid = Some s' \<and> status s' = CONFIRMED
      \<and> seeker_confirmed s' = Some True \<and> finder_confirmed s' = Some True
      \<and> map_option item_status (get_item db' (item_id li)) = Some MATCHED
      \<and> map_option item_status (get_item db' (item_id fi)) = Some MATCHED
      \<and> failed_matches db' = failed_matches db"
proof -
  define s1 where "s1 = (if owner_id li = uid
      then session\<lparr>seeker_confirmed := Some True, status := CONFIRMED\<rparr>
      else session\<lparr>finder_confirmed := Some True, status := CONFIRMED\<rparr>)"
  have id: "session_id s1 = sid" and st: "status s1 = CONFIRMED"
    and fl: "seeker_confirmed s1 = Some True" "finder_confirmed s1 = Some True"
    using get_session_id [OF assms(1)] assms(5) by (simp_all add: s1_def split: if_splits)
  have c: "confirm_item db sid True uid = handle_success (put_session db s1) s1"
    using confirm_item_seeker(3) [OF assms(1-3)] confirm_item_finder(3) [OF assms(1-3)]
      assms(4,5)
    by (auto simp: s1_def)
  have l: "lost_item (put_session db s1) s1 = Some li"
    and f: "found_item (put_session db s1) s1 = Some fi"
  proof -
    have "lost_item db s1 = lost_item db session"
      by (rule lost_found_item_cong(1)) (simp add: s1_def)
    then show "lost_item (put_session db s1) s1 = Some li"
      using assms(2) by (simp add: put_session_frame)
    have "found_item db s1 = found_item db session"
      by (rule lost_found_item_cong(2)) (simp add: s1_def)
    then show "found_item (put_session db s1) s1 = Some fi"
      using assms(3) by (simp add: put_session_frame)
  qed
  from handle_success_effect [OF l f]
  obtain db' where h: "handle_success (put_session db s1) s1 = Inr db'"
    and o: "map_option item_status (get_item db' (item_id li)) = Some MATCHED"
      "map_option item_status (get_item db' (item_id fi)) = Some MATCHED"
    and fm: "failed_matches db' = failed_matches (put_session db s1)"
    and ns: "negotiation_sessions db' = negotiation_sessions (put_session db s1)"
    by blast
  from get_session_cong [OF ns] get_put_session [OF assms(1) id]
  have "get_session db' sid = Some s1"
    by simp
  with c h o fm st fl show ?thesis
    by (simp add: put_session_frame)
qed


text \<open>
  C5. In a session that awaits confirmation and whose two items exist, for the owner
  of either item: answering ``not mine'' moves the session to REJECTED, appends a
  failed match for the pair and sets both items to OPEN; answering ``mine'' while the
  other party's flag is not true sets the own flag and leaves the session in
  PENDING_CONFIRM, and answering so once more changes nothing; answering ``mine'' when
  the other party's flag is true moves the session to CONFIRMED, with both flags true
  and both items MATCHED.
\<close>

theorem confirm_item_transitions:
  assumes "get_session db sid = Some session" and "status session = PENDING_CONFIRM"
    and "lost_item db session = Some li" and "found_item db session = Some fi"
    and "owner_id li = uid \<or> owner_id fi = uid"
  shows "(\<exists>db' s'. confirm_item db sid False uid = Inr db'
      \<and> get_session db' sid = Some s' \<and> status s' = REJECTED
      \<and> failed_matches db' = failed_matches db @
           [\<lparr>fm_lost_item_id = Some (item_id li), fm_found_item_id = Some (item_id fi),
             fm_session_id = Some sid, reason = Some ''user confirmed: not my item''\<rparr>]
      \<and> map_option item_status (get_item db' (item_id li)) = Some OPEN
      \<and> map_option item_status (get_item db' (item_id fi)) = Some OPEN)
    \<and> ((if owner_id li = uid then finder_confirmed session else seeker_confirmed session)
           \<noteq> Some True \<longrightarrow>
        (\<exists>db' s'. confirm_item db sid True uid = Inr db'
          \<and> get_session db' sid = Some s' \<and> status s' = PENDING_CONFIRM
          \<and> (if owner_id li = uid then seeker_confirmed s' else finder_confirmed s') = Some True
          \<and> items db' = items db \<and> failed_matches db' = failed_matches db
          \<and> confirm_item db' sid True uid = Inr db'))
    \<and> ((if owner_id li = uid then finder_confirmed session else seeker_confirmed session)
           = Some True \<longrightarrow>
        (\<exists>db' s'. confirm_item db sid True uid = Inr db'
          \<and> get_session db' sid = Some s' \<and> status s' = CONFIRMED
          \<and> seeker_confirmed s' = Some True \<and> finder_confirmed s' = Some True
          \<and> map_option item_status (get_item db' (item_id li)) = Some MATCHED
          \<and> map_option item_status (get_item db' (item_id fi)) = Some MATCHED
          \<and> failed_matches db' = failed_matches db))"
proof (intro conjI impI)
  show "\<exists>db' s'. confirm_item db sid False uid = Inr db'
      \<and> get_session db' sid = Some s' \<and> status s' = REJECTED
      \<and> failed_matches db' = failed_matches db @
           [\<lparr>fm_lost_item_id = Some (item_id li), fm_found_item_id = Some (item_id fi),
             fm_session_id = Some sid, reason = Some ''user confirmed: not my item''\<rparr>]
      \<and> map_option item_status (get_item db' (item_id li)) = Some OPEN
      \<and> map_option item_status (get_item db' (item_id fi)) = Some OPEN"
    by (rule confirm_item_not_mine [OF assms(1,3,4,5)])
next
  assume "(if owner_id li = uid then finder_confirmed session else seeker_confirmed session)
           \<noteq> Some True"
  from confirm_item_mine_waiting [OF assms(1,3,4,5) this] assms(2)
  show "\<exists>db' s'. confirm_item db sid True uid = Inr db'
          \<and> get_session db' sid = Some s' \<and> status s' = PENDING_CONFIRM
          \<and> (if owner_id li = uid then seeker_confirmed s' else finder_confirmed s') = Some True
          \<and> items db' = items db \<and> failed_matches db' = failed_matches db
          \<and> confirm_item db' sid True uid = Inr db'"
    by simp
next
  assume "(if owner_id li = uid then finder_confirmed session else seeker_confirmed session)
           = Some True"
  from confirm_item_mine_both [OF assms(1,3,4,5) this]
  show "\<exists>db' s'. confirm_item db sid True uid = Inr db'
          \<and> get_session db' sid = Some s' \<and> status s' = CONFIRMED
          \<and> seeker_confirmed s' = Some True \<and> finder_confirmed s' = Some True
          \<and> map_option item_status (get_item db' (item_id li)) = Some MATCHED
          \<and> map_option item_status (get_item db' (item_id fi)) = Some MATCHED
          \<and> failed_matches db' = failed_matches db" .
qed

lemmas state_defs = db_pending_def session_pending_def db_seeker_confirmed_def
  session_confirmed_def db_confirmed_def agreed_chat_def

lemmas endpoint_defs = owned_by_def handle_success_def handle_failure_def put_session_def
  set_item_status_def get_session_def get_item_def lost_item_def found_item_def
  notify_owner_def send_def first_schedule_def

text \<open>The example databases are what the code produces.\<close>

lemma example_flow:
  "create_session db_items 1 2 0.5714 = (session_active, db_active)"
  "run_full_negotiation scripted script_agree db_active 1
     = (Inr (StatusResult ''SUCCESS'' 5), db_pending, [])"
  "confirm_item db_pending 1 True 10 = Inr db_seeker_confirmed"
  "confirm_item db_seeker_confirmed 1 True 20 = Inr db_confirmed"
     apply (simp add: create_session_def example_defs set_item_status_def next_id_def)
    apply (simp add: example_defs negotiation_defs script_agree_def state_defs)
   apply (simp add: confirm_item_def example_defs state_defs endpoint_defs)
  apply (simp add: confirm_item_def example_defs state_defs endpoint_defs)
  done

lemma db_pending_session:
  "get_session db_pending 1 = Some session_pending"
  "status session_pending = PENDING_CONFIRM"
  "lost_item db_pending session_pending = Some (lost1\<lparr>item_status := NEGOTIATING\<rparr>)"
  "found_item db_pending session_pending = Some (found2\<lparr>item_status := NEGOTIATING\<rparr>)"
  "seeker_confirmed session_pending = None" "finder_confirmed session_pending = None"
  by (simp_all add: example_defs state_defs endpoint_defs)

lemma db_seeker_confirmed_session:
  "get_session db_seeker_confirmed 1 = Some (session_pending\<lparr>seeker_confirmed := Some True\<rparr>)"
  "lost_item db_seeker_confirmed (session_pending\<lparr>seeker_confirmed := Some True\<rparr>)
     = Some (lost1\<lparr>item_status := NEGOTIATING\<rparr>)"
  "found_item db_seeker_confirmed (session_pending\<lparr>seeker_confirmed := Some True\<rparr>)
     = Some (found2\<lparr>item_status := NEGOTIATING\<rparr>)"
  by (simp_all add: example_defs state_defs endpoint_defs)

theorem confirm_item_transitions_witness:
  "get_session db_pending 1 = Some session_pending \<and> status session_pending = PENDING_CONFIRM
   \<and> lost_item db_pending session_pending = Some (lost1\<lparr>item_status := NEGOTIATING\<rparr>)
   \<and> found_item db_pending session_pending = Some (found2\<lparr>item_status := NEGOTIATING\<rparr>)
   \<and> owner_id (lost1\<lparr>item_status := NEGOTIATING\<rparr>) = 10
   \<and> finder_confirmed session_pending \<noteq> Some True
   \<and> (\<exists>db' s'. confirm_item db_pending 1 False 10 = Inr db'
        \<and> get_session db' 1 = Some s' \<and> status s' = REJECTED
        \<and> failed_matches db' =
             [\<lparr>fm_lost_item_id = Some 1, fm_found_item_id = Some 2,
               fm_session_id = Some 1, reason = Some ''user confirmed: not my item''\<rparr>]
        \<and> map_option item_status (get_item db' 1) = Some OPEN
        \<and> map_option item_status (get_item db' 2) = Some OPEN)
   \<and> confirm_item db_pending 1 True 10 = Inr db_seeker_confirmed
   \<and> confirm_item db_seeker_confirmed 1 True 10 = Inr db_seeker_confirmed
   \<and> map_option status (get_session db_seeker_confirmed 1) = Some PENDING_CONFIRM
   \<and> confirm_item db_seeker_confirmed 1 True 20 = Inr db_confirmed
   \<and> map_option status (get_session db_confirmed 1) = Some CONFIRMED
   \<and> map item_status (items db_confirmed) = [MATCHED, MATCHED, OPEN]"
proof -
  note h = db_pending_session
  have o: "owner_id (lost1\<lparr>item_status := NEGOTIATING\<rparr>) = 10 \<or>
      owner_id (found2\<lparr>item_status := NEGOTIATING\<rparr>) = 10"
    by (simp add: lost1_def)
  have fm0: "failed_matches db_pending = []"
    by (simp add: example_defs state_defs)
  have ids: "item_id (lost1\<lparr>item_status := NEGOTIATING\<rparr>) = 1"
    "item_id (found2\<lparr>item_status := NEGOTIATING\<rparr>) = 2"
    by (simp_all add: lost1_def found2_def)
  from confirm_item_transitions [OF h(1) h(2) h(3) h(4) o] fm0 ids h(6) example_flow(3)
  have "(\<exists>db' s'. confirm_item db_pending 1 False 10 = Inr db'
        \<and> get_session db' 1 = Some s' \<and> status s' = REJECTED
        \<and> failed_matches db' =
             [\<lparr>fm_lost_item_id = Some 1, fm_found_item_id = Some 2,
               fm_session_id = Some 1, reason = Some ''user confirmed: not my item''\<rparr>]
        \<and> map_option item_status (get_item db' 1) = Some OPEN
        \<and> map_option item_status (get_item db' 2) = Some OPEN)
     \<and> confirm_item db_seeker_confirmed 1 True 10 = Inr db_seeker_confirmed"
    by (auto simp: lost1_def)
  moreover have "map_option status (get_session db_seeker_confirmed 1) = Some PENDING_CONFIRM"
    using db_seeker_confirmed_session(1) h(2) by (simp add: session_pending_def)
  moreover have "map_option status (get_session db_confirmed 1) = Some CONFIRMED"
    and "map item_status (items db_confirmed) = [MATCHED, MATCHED, OPEN]"
    by (simp_all add: example_defs state_defs get_session_def)
  ultimately show ?thesis
    using h example_flow(3,4) by (simp add: lost1_def)
qed

section \<open>Forced override\<close>

lemma find_matches_cong:
  "items a = items b \<Longrightarrow> failed_matches a = failed_matches b \<Longrightarrow>
   find_matches sim a lost limit = find_matches sim b lost limit"
  by (simp add: find_matches_def)

text \<open>
  C10. \<open>force_match\<close> by the owner of the lost item on a FAILED or REJECTED session
  succeeds and replaces that session's row only: the status becomes PENDING_CONFIRM,
  the seeker's flag true, and one System entry is appended to the chat log. Items,
  images, failed matches, schedules and notifications are as before, so
  \<open>find_matches\<close> returns what it returned before, and a pair with a failed match is
  still not offered.
\<close>

theorem force_match_only_session:
  assumes "get_session db sid = Some session"
    and "status session = FAILED \<or> status session = REJECTED"
    and "owned_by (lost_item db session) uid"
  shows "\<exists>db' s'. force_match db sid uid = Inr db'
    \<and> s' = session\<lparr>status := PENDING_CONFIRM, seeker_confirmed := Some True,
                     chat_log := chat_log session @
                       [\<lparr>sender = ''System'',
                         content = Some ''seeker confirmed own item; forced match'',
                         action_type = None\<rparr>]\<rparr>
    \<and> get_session db' sid = Some s'
    \<and> negotiation_sessions db'
        = map (\<lambda>x. if session_id x = sid then s' else x) (negotiation_sessions db)
    \<and> items db' = items db \<and> item_images db' = item_images db
    \<and> failed_matches db' = failed_matches db
    \<and> return_schedules db' = return_schedules db \<and> notifications db' = notifications db
    \<and> (\<forall>sim lost limit. find_matches sim db' lost limit = find_matches sim db lost limit)
    \<and> (\<forall>fm \<in> set (failed_matches db). \<forall>sim lost limit i score.
          fm_lost_item_id fm = Some (item_id lost)
          \<and> (i, score) \<in> set (find_matches sim db' lost limit)
          \<longrightarrow> fm_found_item_id fm \<noteq> Some (item_id i))"
proof -
  define s' where "s' = session\<lparr>status := PENDING_CONFIRM, seeker_confirmed := Some True,
                     chat_log := chat_log session @
                       [\<lparr>sender = ''System'',
                         content = Some ''seeker confirmed own item; forced match'',
                         action_type = None\<rparr>]\<rparr>"
  have id: "session_id s' = sid"
    using get_session_id [OF assms(1)] by (simp add: s'_def)
  have f: "force_match db sid uid = Inr (put_session db s')"
    using assms by (auto simp: force_match_def s'_def)
  have g: "get_session (put_session db s') sid = Some s'"
    by (rule get_put_session [OF assms(1) id])
  have m: "negotiation_sessions (put_session db s')
        = map (\<lambda>x. if session_id x = sid then s' else x) (negotiation_sessions db)"
    by (simp add: put_session_def id)
  have fm: "find_matches sim (put_session db s') lost limit = find_matches sim db lost limit"
    for sim lost limit
    by (rule find_matches_cong) (simp_all add: put_session_frame)
  have ex: "fm_found_item_id x \<noteq> Some (item_id i)"
    if "x \<in> set (failed_matches db)" and "fm_lost_item_id x = Some (item_id lost)"
      and "(i, score) \<in> set (find_matches sim (put_session db s') lost limit)"
    for x sim lost limit i score
  proof -
    from that(3) have "(i, score) \<in> set (find_matches sim db lost limit)"
      by (simp add: fm)
    from find_matches_subset [OF this] that(1,2) show ?thesis
      by blast
  qed
  from f g m fm ex show ?thesis
    unfolding s'_def [symmetric] by (auto simp: put_session_frame)
qed

lemma example_rejected:
  "confirm_item db_pending 1 False 10 = Inr db_rejected"
  "force_match db_rejected 1 10 = Inr db_forced"
   apply (simp add: confirm_item_def db_rejected_def example_defs state_defs endpoint_defs)
  apply (simp add: force_match_def db_forced_def db_rejected_def example_defs state_defs
      endpoint_defs)
  done

lemma find_matches_db_forced:
  "find_matches sim_equal db_forced lost1 10 = [(found3, 0.5)]"
  apply (simp add: find_matches_def db_forced_def db_rejected_def db_pending_def db_active_def
      db_items_def Let_def sql_notin_def slice_to_def MIN_MATCH_SCORE_def
      score_lost1_found2 score_lost1_found3)
  apply (simp add: lost1_def found2_def found3_def)
  done

theorem force_match_only_session_witness:
  "get_session db_rejected 1
     = Some (session_pending\<lparr>status := REJECTED, seeker_confirmed := Some False\<rparr>)
   \<and> owned_by (lost_item db_rejected
        (session_pending\<lparr>status := REJECTED, seeker_confirmed := Some False\<rparr>)) 10
   \<and> force_match db_rejected 1 10 = Inr db_forced
   \<and> map_option status (get_session db_forced 1) = Some PENDING_CONFIRM
   \<and> failed_matches db_forced = failed_matches db_rejected
   \<and> failed_matches db_forced \<noteq> []
   \<and> items db_forced = items db_rejected
   \<and> find_matches sim_equal db_forced lost1 10 = find_matches sim_equal db_rejected lost1 10
   \<and> find_matches sim_equal db_forced lost1 10 = [(found3, 0.5)]"
proof -
  let ?s = "session_pending\<lparr>status := REJECTED, seeker_confirmed := Some False\<rparr>"
  have h1: "get_session db_rejected 1 = Some ?s"
    by (simp add: db_rejected_def example_defs state_defs get_session_def)
  have h2: "status ?s = FAILED \<or> status ?s = REJECTED"
    by simp
  have h3: "owned_by (lost_item db_rejected ?s) 10"
    by (simp add: db_rejected_def example_defs state_defs endpoint_defs)
  from force_match_only_session [OF h1 h2 h3] example_rejected(2)
  have "map_option status (get_session db_forced 1) = Some PENDING_CONFIRM
   \<and> failed_matches db_forced = failed_matches db_rejected
   \<and> items db_forced = items db_rejected
   \<and> find_matches sim_equal db_forced lost1 10 = find_matches sim_equal db_rejected lost1 10"
    by auto
  moreover have "failed_matches db_forced \<noteq> []"
    by (simp add: db_forced_def db_rejected_def)
  ultimately show ?thesis
    using h1 h3 example_rejected(2) find_matches_db_forced by simp
qed

section \<open>Scheduling\<close>













lemma example_stale:
  "and_then (create_schedule db_confirmed 1 proposal_monday 20)
     (\<lambda>db. confirm_item db 1 True 10) = Inr db_stale"
  by (simp add: and_then_def create_schedule_def confirm_item_def db_stale_def
      proposal_monday_def example_defs state_defs endpoint_defs)



section \<open>Return confirmation\<close>

lemma example_waiting:
  "and_then (create_schedule
       (db_confirmed\<lparr>item_images := item_images db_waiting,
                      failed_matches := failed_matches db_waiting\<rparr>) 1 proposal_monday 20)
     (\<lambda>db. approve_schedule db 1 10) = Inr db_waiting"
  by (simp add: and_then_def create_schedule_def approve_schedule_def db_waiting_def
      proposal_monday_def example_defs state_defs endpoint_defs)

text \<open>
  What \<open>confirm_return\<close> does for the owner of the lost item who confirms the return:
  the outcome depends on the session's finder flag alone, which the human
  confirmation set.
\<close>

lemma confirm_return_seeker_returned:
  assumes "get_session db sid = Some session" and "status session = WAITING_RETURN"
    and "owned_by (lost_item db session) uid"
  shows "finder_confirmed session \<noteq> Some True \<Longrightarrow>
      \<exists>db'. confirm_return db sid True uid = Inr db'
        \<and> get_session db' sid = Some (session\<lparr>seeker_confirmed := Some True\<rparr>)
        \<and> items db' = items db"
    and "finder_confirmed session = Some True \<Longrightarrow>
      \<exists>db'. confirm_return db sid True uid = Inr db'
        \<and> get_session db' sid
            = Some (session\<lparr>seeker_confirmed := Some True, status := RETURNED,
                             lost_item_id := None, found_item_id := None\<rparr>)"
proof -
  let ?db1 = "db\<lparr>return_schedules :=
      update_first (\<lambda>r. rs_session_id r = sid) (\<lambda>r. r\<lparr>rs_seeker_confirmed := True\<rparr>)
        (return_schedules db)\<rparr>"
  let ?s1 = "session\<lparr>seeker_confirmed := Some True\<rparr>"
  let ?s2 = "?s1\<lparr>status := RETURNED, lost_item_id := None, found_item_id := None\<rparr>"
  have id: "session_id ?s1 = sid" "session_id ?s2 = sid"
    using get_session_id [OF assms(1)] by simp_all
  have g: "get_session ?db1 sid = Some session"
    using assms(1) by (simp add: get_session_def)
  {
    assume "finder_confirmed session \<noteq> Some True"
    with assms have "confirm_return db sid True uid = Inr (put_session ?db1 ?s1)"
      by (simp add: confirm_return_def Let_def)
    with get_put_session [OF g id(1)]
    show "\<exists>db'. confirm_return db sid True uid = Inr db'
        \<and> get_session db' sid = Some (session\<lparr>seeker_confirmed := Some True\<rparr>)
        \<and> items db' = items db"
      by (simp add: put_session_frame)
  }
  {
    assume "finder_confirmed session = Some True"
    let ?l = "map_option item_id (lost_item db session)"
    let ?f = "map_option item_id (found_item db session)"
    have dr: "get_session (delete_item_records d i) k = get_session d k" for d i k
      by (simp add: delete_item_records_def get_session_def split: option.splits)
    have dw: "get_session (delete_item_row d i) k = get_session d k" for d i k
      by (simp add: delete_item_row_def get_session_def split: option.splits)
    from assms \<open>finder_confirmed session = Some True\<close>
    have "confirm_return db sid True uid
        = Inr (delete_item_row (delete_item_row
                 (put_session (delete_item_records (delete_item_records ?db1 ?l) ?f) ?s2) ?l) ?f)"
      by (simp add: confirm_return_def Let_def)
    moreover have "get_session (delete_item_records (delete_item_records ?db1 ?l) ?f) sid
        = Some session"
      using g by (simp add: dr)
    from get_put_session [OF this id(2)]
    have "get_session (delete_item_row (delete_item_row
            (put_session (delete_item_records (delete_item_records ?db1 ?l) ?f) ?s2) ?l) ?f) sid
        = Some ?s2"
      by (simp add: dw)
    ultimately show "\<exists>db'. confirm_return db sid True uid = Inr db'
        \<and> get_session db' sid
            = Some (session\<lparr>seeker_confirmed := Some True, status := RETURNED,
                             lost_item_id := None, found_item_id := None\<rparr>)"
      by simp
  }
qed

text \<open>
  C1, at the failing input. In \<open>db_waiting\<close> session 1 is in WAITING_RETURN, its two
  session flags are true since the human confirmation, and neither party has
  confirmed the return (both flags of the schedule are false). The seeker alone
  confirms: the session becomes RETURNED, items 1 and 2, their images and the failed
  match of item 1 are deleted, and the schedule still says that the finder has not
  confirmed.
\<close>

theorem confirm_return_one_party_finalizes:
  "map_option status (get_session db_waiting 1) = Some WAITING_RETURN
   \<and> map (\<lambda>r. (rs_seeker_confirmed r, rs_finder_confirmed r)) (return_schedules db_waiting)
       = [(False, False)]
   \<and> map item_id (items db_waiting) = [1, 2, 3]
   \<and> confirm_return db_waiting 1 True 10
       = Inr (db_waiting\<lparr>items := [found3],
                item_images := [\<lparr>image_item_id = 3, image_path = ''c.jpg''\<rparr>],
                negotiation_sessions :=
                  [session_confirmed\<lparr>status := RETURNED, lost_item_id := None,
                                      found_item_id := None\<rparr>],
                failed_matches := [],
                return_schedules :=
                  [\<lparr>rs_session_id = 1, proposed_time = 900,
                    proposed_location = ''library'', rs_notes = None,
                    rs_status = ''APPROVED'', reject_reason = None,
                    rs_seeker_confirmed = True, rs_finder_confirmed = False\<rparr>]\<rparr>)"
  by (simp add: confirm_return_def delete_item_records_def delete_item_row_def
      db_waiting_def example_defs state_defs endpoint_defs)

section \<open>Guards of the endpoints\<close>

text \<open>
  The scheduling endpoints, the return confirmation and the forced override answer a
  wrong state or a wrong user with an error, before any change.
\<close>

lemma guarded_endpoints:
  assumes "get_session db sid = Some session"
  shows "status session \<noteq> CONFIRMED \<or> \<not> owned_by (found_item db session) uid
      \<Longrightarrow> \<exists>e. create_schedule db sid p uid = Inl e"
    and "status session \<noteq> SCHEDULE_PENDING \<or> \<not> owned_by (lost_item db session) uid
      \<Longrightarrow> \<exists>e. approve_schedule db sid uid = Inl e"
    and "status session \<noteq> SCHEDULE_PENDING \<or> \<not> owned_by (lost_item db session) uid
      \<Longrightarrow> \<exists>e. reject_schedule db sid t uid = Inl e"
    and "status session \<noteq> WAITING_RETURN
        \<or> \<not> (owned_by (lost_item db session) uid \<or> owned_by (found_item db session) uid)
      \<Longrightarrow> \<exists>e. confirm_return db sid b uid = Inl e"
    and "(status session \<noteq> FAILED \<and> status session \<noteq> REJECTED)
        \<or> \<not> owned_by (lost_item db session) uid
      \<Longrightarrow> \<exists>e. force_match db sid uid = Inl e"
    and "\<not> (owned_by (lost_item db session) uid \<or> owned_by (found_item db session) uid)
      \<Longrightarrow> confirm_item db sid b uid = Inl Forbidden"
    and "status session \<noteq> CONFIRMED \<Longrightarrow> start_return db sid uid = Inl BadRequest"
  using assms
  by (auto simp: create_schedule_def approve_schedule_def reject_schedule_def
      confirm_return_def force_match_def confirm_item_def start_return_def Let_def)

text \<open>
  C2, at the failing inputs. \<open>start_return\<close> checks the state and not the user: user 99,
  who owns neither item, moves the CONFIRMED session 1 to WAITING_RETURN.
  \<open>confirm_item\<close> checks the user and not the state: on session 1 in WAITING_RETURN the
  seeker's ``not mine'' is accepted, the session becomes REJECTED, both items OPEN, and
  a failed match is recorded.
\<close>

theorem unguarded_transitions:
  "get_session db_confirmed 1 = Some session_confirmed
   \<and> status session_confirmed = CONFIRMED
   \<and> \<not> owned_by (lost_item db_confirmed session_confirmed) 99
   \<and> \<not> owned_by (found_item db_confirmed session_confirmed) 99
   \<and> start_return db_confirmed 1 99
       = Inr (db_confirmed\<lparr>negotiation_sessions :=
                [session_confirmed\<lparr>status := WAITING_RETURN\<rparr>]\<rparr>)
   \<and> map_option status (get_session db_waiting 1) = Some WAITING_RETURN
   \<and> confirm_item db_waiting 1 False 10
       = Inr (db_waiting\<lparr>items := [lost1, found2, found3],
                negotiation_sessions :=
                  [session_confirmed\<lparr>status := REJECTED, seeker_confirmed := Some False\<rparr>],
                failed_matches := failed_matches db_waiting @
                  [\<lparr>fm_lost_item_id = Some 1, fm_found_item_id = Some 2,
                    fm_session_id = Some 1,
                    reason = Some ''user confirmed: not my item''\<rparr>]\<rparr>)"
  by (simp add: start_return_def confirm_item_def db_waiting_def
      example_defs state_defs endpoint_defs)

section \<open>Orchestrator\<close>

lemma fold_max_ge: "a \<le> fold max xs (a::nat)"
proof (induction xs arbitrary: a)
  case Nil
  then show ?case by simp
next
  case (Cons x xs)
  have "a \<le> max x a"
    by simp
  also have "max x a \<le> fold max xs (max x a)"
    by (rule Cons.IH)
  finally show ?case
    by simp
qed

lemma fold_max_mem: "x \<in> set xs \<Longrightarrow> x \<le> fold max xs (a::nat)"
proof (induction xs arbitrary: a)
  case Nil
  then show ?case by simp
next
  case (Cons y ys)
  show ?case
  proof (cases "x = y")
    case True
    have "x \<le> max y a"
      using True by simp
    also have "max y a \<le> fold max ys (max y a)"
      by (rule fold_max_ge)
    finally show ?thesis
      by simp
  next
    case False
    with Cons.prems have "x \<in> set ys"
      by simp
    from Cons.IH [OF this] show ?thesis
      by simp
  qed
qed

lemma next_id_fresh: "x \<in> set xs \<Longrightarrow> x < next_id xs"
  using fold_max_mem [of x xs 0] by (simp add: next_id_def)

lemma find_append_fresh:
  assumes "\<forall>x \<in> set xs. \<not> P x" and "P y"
  shows "find P (xs @ [y]) = Some y"
  using assms by (induction xs) auto

text \<open>
  \<open>create_session\<close> for two items that exist: the new session is ACTIVE, has a fresh
  id and an empty chat log, both items are NEGOTIATING, nothing else changes.
\<close>

lemma create_session_effect:
  assumes "get_item db lid = Some l0" and "get_item db fid = Some f0"
  shows "\<exists>session db1. create_session db lid fid score = (session, db1)
    \<and> get_session db1 (session_id session) = Some session
    \<and> status session = ACTIVE \<and> chat_log session = []
    \<and> lost_item_id session = Some lid \<and> found_item_id session = Some fid
    \<and> lost_item db1 session = Some (l0\<lparr>item_status := NEGOTIATING\<rparr>)
    \<and> found_item db1 session = Some (f0\<lparr>item_status := NEGOTIATING\<rparr>)
    \<and> failed_matches db1 = failed_matches db"
proof -
  let ?n = "next_id (map session_id (negotiation_sessions db))"
  let ?s = "\<lparr>session_id = ?n, lost_item_id = Some lid, found_item_id = Some fid,
      status = ACTIVE, match_score = score, chat_log = [],
      seeker_confirmed = None, finder_confirmed = None\<rparr>"
  let ?db2 = "set_item_status (set_item_status db lid NEGOTIATING) fid NEGOTIATING"
  let ?db1 = "?db2\<lparr>negotiation_sessions := negotiation_sessions ?db2 @ [?s]\<rparr>"
  have c: "create_session db lid fid score = (?s, ?db1)"
    by (simp add: create_session_def Let_def set_item_status_frame)
  have "\<forall>x \<in> set (negotiation_sessions db). session_id x \<noteq> ?n"
    using next_id_fresh [of _ "map session_id (negotiation_sessions db)"] by fastforce
  then have g: "get_session ?db1 ?n = Some ?s"
    by (simp add: get_session_def set_item_status_frame find_append_fresh)
  have gi: "get_item (d\<lparr>negotiation_sessions := ss\<rparr>) j = get_item d j" for d ss j
    by (simp add: get_item_def)
  have l: "get_item ?db2 lid = Some (l0\<lparr>item_status := NEGOTIATING\<rparr>)"
    using assms by (auto simp: get_item_set_item_status)
  have f: "get_item ?db2 fid = Some (f0\<lparr>item_status := NEGOTIATING\<rparr>)"
    using assms by (auto simp: get_item_set_item_status)
  from c g l f show ?thesis
    by (simp add: lost_item_def found_item_def gi set_item_status_frame)
qed


lemma send_frame:
  "items (send db u ty k) = items db"
  "failed_matches (send db u ty k) = failed_matches db"
  "negotiation_sessions (send db u ty k) = negotiation_sessions db"
  "get_session (send db u ty k) sid = get_session db sid"
  "get_item (send db u ty k) i = get_item db i"
  by (simp_all add: send_def get_session_def get_item_def)

text \<open>
  C8. One round of the orchestrator's loop, for a lost and a found item that exist:
  the session is created and negotiated, and the result is SUCCESS, FAILED or
  MAX_ROUNDS. On SUCCESS the session is in PENDING_CONFIRM, the loop returns, both
  items are NEGOTIATING and no failed match was written. Otherwise the session is
  FAILED, \<open>handle_failure\<close> appends a failed match for exactly this pair and session and
  sets both items to OPEN, and the loop goes on with the next candidate.
\<close>

theorem failed_negotiation_releases_items:
  assumes "get_item db (item_id lost) = Some l0" and "get_item db (item_id found) = Some f0"
  shows "\<exists>session db1 r db2 l' s2.
      create_session db (item_id lost) (item_id found) score = (session, db1)
    \<and> run_full_negotiation llm l db1 (session_id session) = (Inr r, db2, l')
    \<and> get_session db2 (session_id session) = Some s2
    \<and> (result_status r = Some ''SUCCESS'' \<or> result_status r = Some ''FAILED''
         \<or> result_status r = Some ''MAX_ROUNDS'')
    \<and> (result_status r = Some ''SUCCESS'' \<longrightarrow>
          status s2 = PENDING_CONFIRM
        \<and> (\<exists>db'. auto_matching_loop llm lost ((found, score) # rest) db l = (Inr True, db', l')
              \<and> get_session db' (session_id session) = Some s2
              \<and> map_option item_status (get_item db' (item_id lost)) = Some NEGOTIATING
              \<and> map_option item_status (get_item db' (item_id found)) = Some NEGOTIATING
              \<and> failed_matches db' = failed_matches db))
    \<and> (result_status r \<noteq> Some ''SUCCESS'' \<longrightarrow>
          status s2 = FAILED
        \<and> (\<exists>db3. handle_failure db2 session (result_status r) = Inr db3
              \<and> auto_matching_loop llm lost ((found, score) # rest) db l
                  = auto_matching_loop llm lost rest db3 l'
              \<and> get_session db3 (session_id session) = Some s2
              \<and> failed_matches db3 = failed_matches db @
                   [\<lparr>fm_lost_item_id = Some (item_id lost),
                     fm_found_item_id = Some (item_id found),
                     fm_session_id = Some (session_id session),
                     reason = result_status r\<rparr>]
              \<and> map_option item_status (get_item db3 (item_id lost)) = Some OPEN
              \<and> map_option item_status (get_item db3 (item_id found)) = Some OPEN))"
proof -
  let ?ln = "l0\<lparr>item_status := NEGOTIATING\<rparr>"
  let ?fn = "f0\<lparr>item_status := NEGOTIATING\<rparr>"
  from create_session_effect [OF assms, of score]
  obtain session db1 where c: "create_session db (item_id lost) (item_id found) score = (session, db1)"
    and g: "get_session db1 (session_id session) = Some session"
    and a: "status session = ACTIVE"
    and ids: "lost_item_id session = Some (item_id lost)" "found_item_id session = Some (item_id found)"
    and li: "lost_item db1 session = Some ?ln" and fi: "found_item db1 session = Some ?fn"
    and fm1: "failed_matches db1 = failed_matches db"
    by blast
  from g a obtain r session' l' new where
    nr: "negotiation_rounds llm (lost_item db1 session) (found_item db1 session)
       MAX_NEGOTIATION_ROUNDS 0 session l = (r, session', l')"
    and run: "run_full_negotiation llm l db1 (session_id session) = (r, put_session db1 session', l')"
    and g2: "get_session (put_session db1 session') (session_id session) = Some session'"
    and n1: "session' = session\<lparr>chat_log := chat_log session @ new, status := status session'\<rparr>"
    by (rule run_full_negotiation_active [where llm = llm and l = l])
  let ?db2 = "put_session db1 session'"
  from nr li fi negotiation_rounds_outcome [of llm ?ln ?fn MAX_NEGOTIATION_ROUNDS 0 session l r session' l']
  consider (agree) n where "r = Inr (StatusResult ''SUCCESS'' n)" "status session' = PENDING_CONFIRM"
    | (reject) n where "r = Inr (StatusResult ''FAILED'' n)" "status session' = FAILED"
    | (limit) n where "r = Inr (StatusResult ''MAX_ROUNDS'' n)" "status session' = FAILED"
    by auto
  then obtain r' where r: "r = Inr r'"
    and forms: "result_status r' = Some ''SUCCESS'' \<or> result_status r' = Some ''FAILED''
         \<or> result_status r' = Some ''MAX_ROUNDS''"
    and ok: "result_status r' = Some ''SUCCESS'' \<Longrightarrow> status session' = PENDING_CONFIRM"
    and ko: "result_status r' \<noteq> Some ''SUCCESS'' \<Longrightarrow> status session' = FAILED"
    by cases auto
  have l2: "lost_item ?db2 session = Some ?ln" and f2: "found_item ?db2 session = Some ?fn"
    using li fi by (simp_all add: put_session_frame)
  have il: "item_id l0 = item_id lost" "item_id f0 = item_id found"
    using get_item_id [OF assms(1)] get_item_id [OF assms(2)] by simp_all
  from li ids(1) have "get_item db1 (item_id lost) = Some ?ln"
    by (simp add: lost_item_def)
  then have gl: "get_item ?db2 (item_id lost) = Some ?ln"
    by (simp add: put_session_frame)
  from fi ids(2) have "get_item db1 (item_id found) = Some ?fn"
    by (simp add: found_item_def)
  then have gf: "get_item ?db2 (item_id found) = Some ?fn"
    by (simp add: put_session_frame)
  have success: "\<exists>db'. auto_matching_loop llm lost ((found, score) # rest) db l = (Inr True, db', l')
              \<and> get_session db' (session_id session) = Some session'
              \<and> map_option item_status (get_item db' (item_id lost)) = Some NEGOTIATING
              \<and> map_option item_status (get_item db' (item_id found)) = Some NEGOTIATING
              \<and> failed_matches db' = failed_matches db"
    if "result_status r' = Some ''SUCCESS''"
    using that c run r g2 gl gf fm1 by (simp add: send_frame put_session_frame)
  have failure: "\<exists>db3. handle_failure ?db2 session (result_status r') = Inr db3
              \<and> auto_matching_loop llm lost ((found, score) # rest) db l
                  = auto_matching_loop llm lost rest db3 l'
              \<and> get_session db3 (session_id session) = Some session'
              \<and> failed_matches db3 = failed_matches db @
                   [\<lparr>fm_lost_item_id = Some (item_id lost),
                     fm_found_item_id = Some (item_id found),
                     fm_session_id = Some (session_id session),
                     reason = result_status r'\<rparr>]
              \<and> map_option item_status (get_item db3 (item_id lost)) = Some OPEN
              \<and> map_option item_status (get_item db3 (item_id found)) = Some OPEN"
    if "result_status r' \<noteq> Some ''SUCCESS''"
  proof -
    from handle_failure_effect [OF l2 f2, of "result_status r'"]
    obtain db3 where h: "handle_failure ?db2 session (result_status r') = Inr db3"
      and fm3: "failed_matches db3 = failed_matches ?db2 @
         [\<lparr>fm_lost_item_id = Some (item_id ?ln), fm_found_item_id = Some (item_id ?fn),
           fm_session_id = Some (session_id session), reason = result_status r'\<rparr>]"
      and o: "map_option item_status (get_item db3 (item_id ?ln)) = Some OPEN"
        "map_option item_status (get_item db3 (item_id ?fn)) = Some OPEN"
      and ns: "negotiation_sessions db3 = negotiation_sessions ?db2"
      by blast
    from get_session_cong [OF ns] g2 have g3: "get_session db3 (session_id session) = Some session'"
      by simp
    have "auto_matching_loop llm lost ((found, score) # rest) db l
        = auto_matching_loop llm lost rest db3 l'"
      using that c run r h by simp
    with h g3 fm3 o fm1 il show ?thesis
      by (simp add: put_session_frame)
  qed
  from c run r g2 forms ok ko success failure show ?thesis
    by (intro exI [of _ session] exI [of _ db1] exI [of _ r'] exI [of _ ?db2] exI [of _ l']
        exI [of _ session']) simp
qed


lemmas orchestrator_defs = create_session_def next_id_def handle_failure_def send_def
  set_item_status_def

text \<open>
  Two runs on the example data. With a rejection on the second turn and one candidate,
  the session ends FAILED after two rounds, the failed match is recorded and all items
  are OPEN. With two candidates, the first rejected and the second agreed, the found
  item of the first is OPEN, the lost item and the second found item stay NEGOTIATING.
\<close>

lemma auto_matching_reject:
  "auto_matching_loop scripted lost1 [(found2, 0.5714)] db_items script_reject
   = (Inr False,
      db_items\<lparr>negotiation_sessions :=
                  [session_active\<lparr>status := FAILED,
                     chat_log := [\<lparr>sender = ''Seeker'', content = None, action_type = Some ''ASK''\<rparr>,
                                  \<lparr>sender = ''Finder'', content = None,
                                    action_type = Some ''REJECT''\<rparr>]\<rparr>],
                failed_matches :=
                  [\<lparr>fm_lost_item_id = Some 1, fm_found_item_id = Some 2,
                    fm_session_id = Some 1, reason = Some ''FAILED''\<rparr>]\<rparr>,
      [])"
  by (simp add: orchestrator_defs example_defs negotiation_defs script_reject_def)

lemma run_auto_matching_second_candidate:
  "(case run_auto_matching scripted sim_equal script_reject_agree db_items 1 of
      (r, db', l') \<Rightarrow>
        r = Inr () \<and> map item_status (items db') = [NEGOTIATING, OPEN, NEGOTIATING]
        \<and> map status (negotiation_sessions db') = [FAILED, PENDING_CONFIRM]
        \<and> map found_item_id (negotiation_sessions db') = [Some 2, Some 3]
        \<and> failed_matches db'
            = [\<lparr>fm_lost_item_id = Some 1, fm_found_item_id = Some 2,
                fm_session_id = Some 1, reason = Some ''FAILED''\<rparr>])"
proof -
  have s: "set_item_status db_items 1 MATCHING
      = db_items\<lparr>items := [lost1\<lparr>item_status := MATCHING\<rparr>, found2, found3]\<rparr>"
    by (simp add: set_item_status_def db_items_def lost1_def found2_def found3_def)
  have m: "find_matches sim_equal (set_item_status db_items 1 MATCHING) lost1 10
      = [(found2, 0.5714), (found3, 0.5)]"
    unfolding s
    apply (simp add: find_matches_def db_items_def Let_def slice_to_def
        MIN_MATCH_SCORE_def score_lost1_found2 score_lost1_found3)
    apply (simp add: lost1_def found2_def found3_def)
    done
  have g: "get_item db_items 1 = Some lost1"
    by (simp add: get_item_def db_items_def lost1_def)
  show ?thesis
    unfolding run_auto_matching_def g m option.case Let_def
    by (simp add: orchestrator_defs example_defs negotiation_defs script_reject_agree_def)
qed

theorem failed_negotiation_releases_items_witness:
  "get_item db_items (item_id lost1) = Some lost1
   \<and> get_item db_items (item_id found2) = Some found2
   \<and> create_session db_items (item_id lost1) (item_id found2) 0.5714
       = (session_active, db_active)
   \<and> (\<exists>db2 n. run_full_negotiation scripted script_reject db_active 1
                 = (Inr (StatusResult ''FAILED'' n), db2, [])
        \<and> map_option status (get_session db2 1) = Some FAILED
        \<and> (\<exists>db3. handle_failure db2 session_active (Some ''FAILED'') = Inr db3
              \<and> failed_matches db3
                  = [\<lparr>fm_lost_item_id = Some 1, fm_found_item_id = Some 2,
                      fm_session_id = Some 1, reason = Some ''FAILED''\<rparr>]
              \<and> map_option item_status (get_item db3 1) = Some OPEN
              \<and> map_option item_status (get_item db3 2) = Some OPEN))"
proof -
  have h1: "get_item db_items (item_id lost1) = Some lost1"
    and h2: "get_item db_items (item_id found2) = Some found2"
    by (simp_all add: get_item_def db_items_def lost1_def found2_def)
  have c: "create_session db_items (item_id lost1) (item_id found2) 0.5714
      = (session_active, db_active)"
    using example_flow(1) by (simp add: lost1_def found2_def)
  have i: "item_id lost1 = 1" "item_id found2 = 2" "session_id session_active = 1"
    "failed_matches db_items = []"
    by (simp_all add: lost1_def found2_def session_active_def db_items_def)
  from failed_negotiation_releases_items [OF h1 h2, of "0.5714" scripted script_reject "[]"]
  obtain session db1 r db2 l' s2 where
    c': "create_session db_items (item_id lost1) (item_id found2) 0.5714 = (session, db1)"
    and run': "run_full_negotiation scripted script_reject db1 (session_id session)
        = (Inr r, db2, l')"
    and g': "get_session db2 (session_id session) = Some s2"
    and ko': "result_status r \<noteq> Some ''SUCCESS'' \<longrightarrow>
          status s2 = FAILED
        \<and> (\<exists>db3. handle_failure db2 session (result_status r) = Inr db3
              \<and> auto_matching_loop scripted lost1 ((found2, 0.5714) # []) db_items script_reject
                  = auto_matching_loop scripted lost1 [] db3 l'
              \<and> get_session db3 (session_id session) = Some s2
              \<and> failed_matches db3 = failed_matches db_items @
                   [\<lparr>fm_lost_item_id = Some (item_id lost1),
                     fm_found_item_id = Some (item_id found2),
                     fm_session_id = Some (session_id session),
                     reason = result_status r\<rparr>]
              \<and> map_option item_status (get_item db3 (item_id lost1)) = Some OPEN
              \<and> map_option item_status (get_item db3 (item_id found2)) = Some OPEN)"
    by blast
  from c c' have e: "session = session_active" "db1 = db_active"
    by simp_all
  from run' e i have run: "run_full_negotiation scripted script_reject db_active 1
      = (Inr r, db2, l')"
    by simp
  from g' e i have g: "get_session db2 1 = Some s2"
    by simp
  from ko' e i have ko: "result_status r \<noteq> Some ''SUCCESS'' \<longrightarrow>
          status s2 = FAILED
        \<and> (\<exists>db3. handle_failure db2 session_active (result_status r) = Inr db3
              \<and> failed_matches db3 =
                   [\<lparr>fm_lost_item_id = Some 1, fm_found_item_id = Some 2,
                     fm_session_id = Some 1, reason = result_status r\<rparr>]
              \<and> map_option item_status (get_item db3 1) = Some OPEN
              \<and> map_option item_status (get_item db3 2) = Some OPEN)"
    by auto
  from run run_reject have r: "r = StatusResult ''FAILED'' 2"
    by simp
  have "l' = []"
    using run by (simp add: example_defs negotiation_defs script_reject_def)
  with run r g ko h1 h2 c show ?thesis
    by auto
qed

end
